theory Spec2Isabelle
  imports Complex_Main "HOL-Library.AList"
begin

section \<open>JavaScript values used by the menu console\<close>

text \<open>
  A JavaScript number is a float64. The model keeps the cases the code tells apart
  (\<open>NaN\<close>, the two infinities, a finite value) and carries a finite value as a
  rational; every finite float64 is one, so a statement about all \<open>Num q\<close> covers
  every finite number the program can hold. Negative zero is \<open>Num 0\<close>.
\<close>

datatype number = NaN | Num rat | PosInfinity | NegInfinity

text \<open>\<open>isNaN(x)\<close>, \<open>x <= 0\<close> and the truthiness of a number.\<close>

fun isNaN :: "number \<Rightarrow> bool" where
  "isNaN NaN = True"
| "isNaN _ = False"

fun le_zero :: "number \<Rightarrow> bool" where
  "le_zero NaN = False"
| "le_zero (Num q) = (q \<le> 0)"
| "le_zero PosInfinity = False"
| "le_zero NegInfinity = True"

fun truthy_number :: "number \<Rightarrow> bool" where
  "truthy_number NaN = False"
| "truthy_number (Num q) = (q \<noteq> 0)"
| "truthy_number PosInfinity = True"
| "truthy_number NegInfinity = True"

text \<open>
  What a spreadsheet cell or an object property holds: nothing (\<open>undefined\<close>), a
  string, a number or a boolean.
\<close>

datatype cell = Undefined | Str string | Number number | Boolean bool

fun truthy :: "cell \<Rightarrow> bool" where
  "truthy Undefined = False"
| "truthy (Str s) = (s \<noteq> [])"
| "truthy (Number n) = truthy_number n"
| "truthy (Boolean b) = b"

text \<open>\<open>a || b\<close>\<close>

definition or_else :: "cell \<Rightarrow> cell \<Rightarrow> cell" where
  "or_else a b = (if truthy a then a else b)"

text \<open>
  Strings are lists of characters; a character outside ASCII is carried as the
  bytes of its encoding, and the code itself splits, strips and compares at ASCII
  characters only. The built-ins whose results depend on Unicode tables, on the
  float64 format or on the outside world are parameters of the model:
  \<open>toLowerCase\<close> and \<open>trim\<close> (which fold every cased letter and strip every
  Unicode white space), how a number prints (\<open>String(n)\<close>, a template literal), what
  \<open>parseFloat\<close> and \<open>parseInt\<close> (with its radix, when one is given) read from a string,
  how \<open>new Date().toISOString()\<close> renders the clock, what the \<open>k\<close>-th call of
  \<open>Math.random().toString(36).substr(2, 9)\<close> returns, and whether the global \<open>XLSX\<close>
  is defined. A statement about every \<open>runtime\<close> holds whatever these built-ins do.
\<close>

record runtime =
  toLowerCase :: "string \<Rightarrow> string"
  trim :: "string \<Rightarrow> string"
  numberToString :: "number \<Rightarrow> string"
  parseFloat :: "string \<Rightarrow> number"
  parseInt :: "string \<Rightarrow> nat option \<Rightarrow> number"
  toISOString :: "nat \<Rightarrow> string"
  randomId :: "nat \<Rightarrow> string"
  xlsxDefined :: bool

text \<open>\<open>String(x)\<close>\<close>

fun String :: "runtime \<Rightarrow> cell \<Rightarrow> string" where
  "String rt Undefined = ''undefined''"
| "String rt (Str s) = s"
| "String rt (Number n) = numberToString rt n"
| "String rt (Boolean b) = (if b then ''true'' else ''false'')"

text \<open>
  \<open>parseFloat(x)\<close> of a cell: the argument is turned into a string first. The
  strings \<open>undefined\<close>, \<open>true\<close> and \<open>false\<close> start no number, and the string of a
  number reads back as that number.
\<close>

fun parseFloat_cell :: "runtime \<Rightarrow> cell \<Rightarrow> number" where
  "parseFloat_cell rt Undefined = NaN"
| "parseFloat_cell rt (Str s) = parseFloat rt s"
| "parseFloat_cell rt (Number n) = n"
| "parseFloat_cell rt (Boolean b) = NaN"

text \<open>\<open>s.replace(/"/g, '')\<close>\<close>

definition stripQuotes :: "string \<Rightarrow> string" where
  "stripQuotes s = filter (\<lambda>c. c \<noteq> CHR 0x22) s"

text \<open>\<open>s.split(sep)\<close> for a one-character separator: never an empty list.\<close>

fun split :: "char \<Rightarrow> string \<Rightarrow> string list" where
  "split sep [] = [[]]"
| "split sep (c # cs) =
     (if c = sep then [] # split sep cs
      else (case split sep cs of
              [] \<Rightarrow> [[c]]
            | f # fs \<Rightarrow> (c # f) # fs))"

text \<open>\<open>xs.join(sep)\<close> of strings.\<close>

fun join :: "string \<Rightarrow> string list \<Rightarrow> string" where
  "join sep [] = []"
| "join sep [x] = x"
| "join sep (x # y # ys) = x @ sep @ join sep (y # ys)"

text \<open>\<open>h.includes(n)\<close>: \<open>n\<close> occurs in \<open>h\<close> as a substring.\<close>

fun startsWith :: "string \<Rightarrow> string \<Rightarrow> bool" where
  "startsWith h [] = True"
| "startsWith [] (c # n) = False"
| "startsWith (d # h) (c # n) = (d = c \<and> startsWith h n)"

fun includes_str :: "string \<Rightarrow> string \<Rightarrow> bool" where
  "includes_str [] n = (n = [])"
| "includes_str (d # h) n = (startsWith (d # h) n \<or> includes_str h n)"

text \<open>
  The decimal digits of a non-negative integer, as a template literal prints
  \<open>Date.now()\<close>, \<open>startId + index\<close> and a length.
\<close>

definition digit_char :: "nat \<Rightarrow> char" where
  "digit_char d = ''0123456789'' ! d"

function natToString :: "nat \<Rightarrow> string" where
  "natToString n =
     (if n < 10 then [digit_char n] else natToString (n div 10) @ [digit_char (n mod 10)])"
  by pat_completeness auto
termination
  by (relation "measure (\<lambda>n. n)") auto

declare natToString.simps [simp del]

subsection \<open>A runtime for the examples\<close>

text \<open>
  The examples below run the model on concrete inputs and need concrete built-ins.
  These stand-ins agree with the built-ins where the examples use them: strings of
  ASCII characters, decimal strings without an exponent (whatever the radix
  argument), numbers with a short decimal expansion, and a clock within the first
  day of 1970.
\<close>

text \<open>The ASCII part of \<open>toLowerCase\<close> and of \<open>trim\<close>.\<close>

definition lower_ascii :: "char \<Rightarrow> char" where
  "lower_ascii c =
     (case map_of (zip ''ABCDEFGHIJKLMNOPQRSTUVWXYZ'' ''abcdefghijklmnopqrstuvwxyz'') c of
        Some l \<Rightarrow> l
      | None \<Rightarrow> c)"

definition toLowerCase_ascii :: "string \<Rightarrow> string" where
  "toLowerCase_ascii s = map lower_ascii s"

definition isSpace_ascii :: "char \<Rightarrow> bool" where
  "isSpace_ascii c = (c \<in> set [CHR '' '', CHR 0x09, CHR 0x0A, CHR 0x0B, CHR 0x0C, CHR 0x0D])"

definition trim_ascii :: "string \<Rightarrow> string" where
  "trim_ascii s = rev (dropWhile isSpace_ascii (rev (dropWhile isSpace_ascii s)))"

definition digit_of :: "char \<Rightarrow> nat option" where
  "digit_of c = map_of (zip ''0123456789'' [0, 1, 2, 3, 4, 5, 6, 7, 8, 9]) c"

definition isDigit :: "char \<Rightarrow> bool" where
  "isDigit c = (digit_of c \<noteq> None)"

definition digitsValue :: "string \<Rightarrow> nat" where
  "digitsValue s = foldl (\<lambda>a c. 10 * a + (case digit_of c of Some d \<Rightarrow> d | None \<Rightarrow> 0)) 0 s"

text \<open>An optional sign, then the rest.\<close>

definition takeSign :: "string \<Rightarrow> bool \<times> string" where
  "takeSign s =
     (case s of
        [] \<Rightarrow> (False, [])
      | c # r \<Rightarrow> if c = CHR ''-'' then (True, r) else if c = CHR ''+'' then (False, r) else (False, s))"

definition parseFloat_dec :: "string \<Rightarrow> number" where
  "parseFloat_dec s =
     (let (neg, u) = takeSign (dropWhile isSpace_ascii s);
          ip = takeWhile isDigit u;
          r = dropWhile isDigit u;
          fp = (case r of [] \<Rightarrow> [] | c # r' \<Rightarrow> if c = CHR ''.'' then takeWhile isDigit r' else [])
      in if ip = [] \<and> fp = [] then NaN
         else
           let v = of_nat (digitsValue ip) + of_nat (digitsValue fp) / 10 ^ length fp
           in Num (if neg then - v else v))"

definition parseInt_dec :: "string \<Rightarrow> number" where
  "parseInt_dec s =
     (let (neg, u) = takeSign (dropWhile isSpace_ascii s);
          ip = takeWhile isDigit u
      in if ip = [] then NaN
         else Num (if neg then - of_nat (digitsValue ip) else of_nat (digitsValue ip)))"

fun fractionDigits :: "nat \<Rightarrow> rat \<Rightarrow> string" where
  "fractionDigits 0 r = []"
| "fractionDigits (Suc fuel) r =
     (if r = 0 then []
      else let d = nat \<lfloor>r * 10\<rfloor> in digit_char d # fractionDigits fuel (r * 10 - of_nat d))"

fun numberToString_dec :: "number \<Rightarrow> string" where
  "numberToString_dec NaN = ''NaN''"
| "numberToString_dec PosInfinity = ''Infinity''"
| "numberToString_dec NegInfinity = ''-Infinity''"
| "numberToString_dec (Num q) =
     (let a = \<bar>q\<bar>; i = nat \<lfloor>a\<rfloor>; r = a - of_nat i
      in (if q < 0 then ''-'' else []) @ natToString i @
         (if r = 0 then [] else ''.'' @ fractionDigits 17 r))"

definition pad :: "nat \<Rightarrow> nat \<Rightarrow> string" where
  "pad width n = replicate (width - length (natToString n)) CHR ''0'' @ natToString n"

definition toISOString_day1 :: "nat \<Rightarrow> string" where
  "toISOString_day1 t =
     ''1970-01-01T'' @ pad 2 (t div 3600000 mod 24) @ '':'' @ pad 2 (t div 60000 mod 60) @ '':'' @
     pad 2 (t div 1000 mod 60) @ ''.'' @ pad 3 (t mod 1000) @ ''Z''"

definition exampleRuntime :: runtime where
  "exampleRuntime =
     \<lparr>toLowerCase = toLowerCase_ascii, trim = trim_ascii,
      numberToString = numberToString_dec, parseFloat = parseFloat_dec,
      parseInt = (\<lambda>s radix. parseInt_dec s),
      toISOString = toISOString_day1, randomId = (\<lambda>k. ''r'' @ natToString k),
      xlsxDefined = True\<rparr>"

section \<open>Data model (types.ts)\<close>

text \<open>
  \<open>MenuCategory\<close> and \<open>MenuItem\<close>. Both interfaces have fields \<open>id\<close>, \<open>name\<close>,
  \<open>description\<close> and \<open>tenantId\<close>; the category's carry the prefix \<open>cat_\<close>, and the
  item's \<open>id\<close> is \<open>item_id\<close>. The enums \<open>Currency\<close>, \<open>SpecialType\<close>,
  \<open>ImageOrientation\<close> and \<open>Allergen\<close> are string enums, and the importers store
  unchecked strings in these fields, so the fields are strings. An optional field
  is an \<open>option\<close>.
\<close>

text \<open>\<open>Omit<MenuCategory, 'id'>\<close>\<close>

record MenuCategoryData =
  cat_name :: string
  cat_description :: string
  sortOrder :: number
  activeFlag :: bool
  cat_tenantId :: string

record MenuCategory = MenuCategoryData +
  cat_id :: string

text \<open>\<open>{ ...categoryData, id }\<close>\<close>

definition with_cat_id :: "MenuCategoryData \<Rightarrow> string \<Rightarrow> MenuCategory" where
  "with_cat_id d i = MenuCategoryData.extend d (MenuCategory.fields i)"

text \<open>\<open>Omit<MenuItem, 'id' | 'createdAt' | 'updatedAt'>\<close>\<close>

record MenuItemData =
  name :: string
  description :: string
  price :: number
  currency :: string
  imageUrl :: string
  videoUrl :: "string option"
  allergens :: "string list"
  categoryId :: string
  availabilityFlag :: bool
  tenantId :: string
  displayName :: "string option"
  itemCode :: "string option"
  prepTime :: "number option"
  soldOut :: bool
  portion :: "string option"
  specialType :: "string option"
  calories :: "number option"
  maxOrderQty :: "number option"
  bogo :: bool
  complimentary :: "string option"
  imageOrientation :: "string option"
  availableTime :: "string option"
  availableDate :: "string option"

record MenuItem = MenuItemData +
  item_id :: string
  createdAt :: string
  updatedAt :: string

text \<open>\<open>{ ...item, id, createdAt, updatedAt }\<close>\<close>

definition with_id :: "MenuItemData \<Rightarrow> string \<Rightarrow> string \<Rightarrow> string \<Rightarrow> MenuItem" where
  "with_id d i c u = MenuItemData.extend d (MenuItem.fields i c u)"

text \<open>The values of the enums.\<close>

definition Currency_values :: "string list" where
  "Currency_values = [''USD'', ''EUR'', ''GBP'', ''JPY'']"

definition SpecialType_values :: "string list" where
  "SpecialType_values =
     [''None'', ''Vegetarian'', ''Non-Vegetarian'', ''Vegan'', ''Chef'' @ [CHR 0x27] @ ''s Special'']"

definition ImageOrientation_values :: "string list" where
  "ImageOrientation_values = [''16:9'', ''3:4'', ''1:1'']"

text \<open>
  \<open>Object.values(E).includes(x) ? x : d\<close>: a cell is kept when it is a string equal
  to one of the enum's values.
\<close>

fun enum_or :: "string list \<Rightarrow> cell \<Rightarrow> string \<Rightarrow> string" where
  "enum_or vs (Str s) d = (if s \<in> set vs then s else d)"
| "enum_or vs _ d = d"

subsection \<open>What an export writes (exportImportService.ts, App.tsx)\<close>

datatype export_format = Csv | Json | Xlsx

record ExportOptions =
  format :: export_format
  includeImages :: "bool option"
  includeMetadata :: "bool option"
  dateRange :: "(nat \<times> nat) option"

record export_metadata =
  totalItems :: nat
  totalCategories :: nat
  exportOptions :: ExportOptions

text \<open>The object that \<open>exportToJSON\<close> hands to \<open>JSON.stringify\<close>.\<close>

record json_envelope =
  exportDate :: string
  version :: string
  metadata :: "export_metadata option"
  json_categories :: "MenuCategory list"
  json_menuItems :: "MenuItem list"

text \<open>
  A worksheet made by \<open>json_to_sheet\<close> is the list of its row objects, each a list
  of column name and value; a workbook is the list of its named sheets. A written
  file is its name and its content: the text of a CSV file, the object serialised
  into a JSON file, the workbook of an XLSX file.
\<close>

type_synonym sheet_row = "(string \<times> cell) list"

datatype artifact =
    CsvFile string
  | JsonFile json_envelope
  | XlsxFile "(string \<times> sheet_row list) list"

section \<open>The in-memory store (mockApiService.ts)\<close>

text \<open>
  A JavaScript \<open>Map\<close> keeps its entries in insertion order with one entry per key:
  an association list, where \<open>set\<close> is \<open>AList.update\<close> (replace in place, or append),
  \<open>delete\<close> is \<open>AList.delete\<close>, \<open>get\<close> is \<open>map_of\<close> and \<open>has\<close> asks whether the key
  is bound.
\<close>

type_synonym ('k, 'v) jsmap = "('k \<times> 'v) list"

definition has :: "('k, 'v) jsmap \<Rightarrow> 'k \<Rightarrow> bool" where
  "has m k = (map_of m k \<noteq> None)"

datatype error = Error string

text \<open>
  The calls that reach the storage collaborator, in the order they are made (for
  \<open>addCategory\<close>, with the category it made).
\<close>

datatype api_call =
    AddCategory MenuCategory
  | UpdateCategory MenuCategory
  | DeleteCategory string
  | AddMenuItemsBatch "MenuItemData list"
  | UpdateMenuItem MenuItem
  | DeleteMenuItem string
  | GetAllMenuItems string

text \<open>
  The state of the page: the two maps of the module, the clock that \<open>Date.now()\<close>
  reads, in milliseconds, and the files the browser has been made to write. \<open>calls\<close>
  is a ghost trace of the storage functions called so far; the code does not keep
  it.
\<close>

record world =
  categoryDB :: "(string, MenuCategory) jsmap"
  menuItemDB :: "(string, MenuItem) jsmap"
  now :: nat
  downloads :: "(string \<times> artifact) list"
  calls :: "api_call list"

text \<open>
  \<open>simulateDelay\<close>: the promise resolves after the timer; the clock has moved by the
  delay, which is what the timer guarantees at least.
\<close>

definition simulateDelay :: "nat \<Rightarrow> world \<Rightarrow> world" where
  "simulateDelay delay w = w\<lparr>now := now w + delay\<rparr>"

definition logCall :: "api_call \<Rightarrow> world \<Rightarrow> world" where
  "logCall c w = w\<lparr>calls := calls w @ [c]\<rparr>"

text \<open>\<open>resolveWithCopy\<close>: a delay, then a structured clone, which is the value itself.\<close>

definition resolveWithCopy :: "'a \<Rightarrow> world \<Rightarrow> 'a \<times> world" where
  "resolveWithCopy data w = (data, simulateDelay 500 w)"

definition addCategory :: "MenuCategoryData \<Rightarrow> world \<Rightarrow> (error + MenuCategory) \<times> world" where
  "addCategory categoryData w =
     (let newCategory = with_cat_id categoryData (''cat-'' @ natToString (now w));
          w1 = w\<lparr>categoryDB := AList.update (cat_id newCategory) newCategory (categoryDB w)\<rparr>;
          (r, w2) = resolveWithCopy newCategory (logCall (AddCategory newCategory) w1)
      in (Inr r, w2))"

definition updateCategory :: "MenuCategory \<Rightarrow> world \<Rightarrow> (error + MenuCategory) \<times> world" where
  "updateCategory updatedCategory w0 =
     (let w = logCall (UpdateCategory updatedCategory) w0 in
      if \<not> has (categoryDB w) (cat_id updatedCategory)
      then (Inl (Error ''Category not found''), w)
      else
        let w1 = w\<lparr>categoryDB :=
                     AList.update (cat_id updatedCategory) updatedCategory (categoryDB w)\<rparr>;
            (r, w2) = resolveWithCopy updatedCategory w1
        in (Inr r, w2))"

definition deleteCategory :: "string \<Rightarrow> world \<Rightarrow> (error + unit) \<times> world" where
  "deleteCategory cid w0 =
     (let w = logCall (DeleteCategory cid) w0 in
      if \<not> has (categoryDB w) cid
      then (Inl (Error ''Category not found''), w)
      else
        let w1 = w\<lparr>categoryDB := AList.delete cid (categoryDB w)\<rparr>;
            itemsToDelete =
              map fst (filter (\<lambda>(itemId, item). categoryId item = cid) (menuItemDB w1));
            w2 = w1\<lparr>menuItemDB := fold AList.delete itemsToDelete (menuItemDB w1)\<rparr>
        in (Inr (), simulateDelay 500 w2))"

text \<open>
  \<open>addMenuItemsBatch\<close>: \<open>startId\<close> is read once; the \<open>forEach\<close> runs without
  awaiting, so the clock it renders is the one it started with. \<open>batchStep\<close> is the
  callback of the \<open>forEach\<close>.
\<close>

definition batchStep :: "runtime \<Rightarrow> nat \<Rightarrow> nat \<times> MenuItemData \<Rightarrow> world \<Rightarrow> world" where
  "batchStep rt startId p v =
     (let (index, item) = p;
          newItem = with_id item (''item-'' @ natToString (startId + index))
                      (toISOString rt (now v)) (toISOString rt (now v))
      in v\<lparr>menuItemDB := AList.update (item_id newItem) newItem (menuItemDB v)\<rparr>)"

definition addMenuItemsBatch ::
  "runtime \<Rightarrow> MenuItemData list \<Rightarrow> world \<Rightarrow> (error + nat) \<times> world" where
  "addMenuItemsBatch rt itemsData w0 =
     (let w = logCall (AddMenuItemsBatch itemsData) w0;
          startId = now w;
          w1 = fold (batchStep rt startId) (zip [0 ..< length itemsData] itemsData) w
      in (Inr (length itemsData), simulateDelay 500 w1))"

definition updateMenuItem ::
  "runtime \<Rightarrow> MenuItem \<Rightarrow> world \<Rightarrow> (error + MenuItem) \<times> world" where
  "updateMenuItem rt updatedItem w0 =
     (let w = logCall (UpdateMenuItem updatedItem) w0 in
      if \<not> has (menuItemDB w) (item_id updatedItem)
      then (Inl (Error ''Menu item not found''), w)
      else
        let itemToUpdate = updatedItem\<lparr>updatedAt := toISOString rt (now w)\<rparr>;
            w1 = w\<lparr>menuItemDB := AList.update (item_id updatedItem) itemToUpdate (menuItemDB w)\<rparr>;
            (r, w2) = resolveWithCopy itemToUpdate w1
        in (Inr r, w2))"

text \<open>\<open>Map.delete\<close> runs first and reports whether the key was there.\<close>

definition deleteMenuItem :: "string \<Rightarrow> world \<Rightarrow> (error + unit) \<times> world" where
  "deleteMenuItem itemId w0 =
     (let w = logCall (DeleteMenuItem itemId) w0;
          deleted = has (menuItemDB w) itemId;
          w1 = w\<lparr>menuItemDB := AList.delete itemId (menuItemDB w)\<rparr>
      in if \<not> deleted then (Inl (Error ''Menu item not found''), w1)
         else (Inr (), simulateDelay 500 w1))"

definition getAllMenuItems :: "string \<Rightarrow> world \<Rightarrow> MenuItem list \<times> world" where
  "getAllMenuItems tid w0 =
     (let w = logCall (GetAllMenuItems tid) w0;
          data = filter (\<lambda>item. tenantId item = tid) (map snd (menuItemDB w))
      in resolveWithCopy data w)"

text \<open>
  The initial data of the module. Every initial item has the same shape; the fields it
  does not set are absent. \<open>loaded\<close> is the value of \<open>new Date().toISOString()\<close>
  when the module was loaded.
\<close>

definition initialCategory :: "string \<Rightarrow> string \<Rightarrow> string \<Rightarrow> rat \<Rightarrow> MenuCategory" where
  "initialCategory i n d s =
     \<lparr>cat_name = n, cat_description = d, sortOrder = Num s, activeFlag = True,
      cat_tenantId = ''tenant-123'', cat_id = i\<rparr>"

definition initialCategoriesData :: "MenuCategory list" where
  "initialCategoriesData =
     [initialCategory ''cat-1'' ''Appetizers'' ''Start your meal with our delicious appetizers'' 1,
      initialCategory ''cat-2'' ''Main Course'' ''Our signature main dishes'' 2,
      initialCategory ''cat-3'' ''Desserts'' ''Sweet endings to your meal'' 3,
      initialCategory ''cat-4'' ''Beverages'' ''Refreshing drinks and cocktails'' 4]"

definition initialItem ::
  "string \<Rightarrow> string \<Rightarrow> string \<Rightarrow> string \<Rightarrow> rat \<Rightarrow> string \<Rightarrow> string list \<Rightarrow> string \<Rightarrow> string \<Rightarrow> rat \<Rightarrow> rat
     \<Rightarrow> MenuItem" where
  "initialItem loaded i n d p img al cat sp cal prep =
     \<lparr>name = n, description = d, price = Num p, currency = ''USD'', imageUrl = img,
      videoUrl = None, allergens = al, categoryId = cat, availabilityFlag = True,
      tenantId = ''tenant-123'', displayName = None, itemCode = None, prepTime = Some (Num prep),
      soldOut = False, portion = None, specialType = Some sp, calories = Some (Num cal),
      maxOrderQty = None, bogo = False, complimentary = None, imageOrientation = None,
      availableTime = None, availableDate = None,
      item_id = i, createdAt = loaded, updatedAt = loaded\<rparr>"

definition initialMenuItemsData :: "string \<Rightarrow> MenuItem list" where
  "initialMenuItemsData loaded =
     [initialItem loaded ''item-1'' ''Bruschetta''
        ''Toasted bread topped with tomatoes, garlic, and fresh basil'' (899 / 100)
        ''https://images.unsplash.com/photo-1572445271230-a78b5944a659?w=400''
        [''Gluten''] ''cat-1'' ''Vegetarian'' 120 10,
      initialItem loaded ''item-2'' ''Margherita Pizza''
        ''Classic pizza with tomato sauce, mozzarella, and fresh basil'' (1699 / 100)
        ''https://images.unsplash.com/photo-1574071318508-1cdbab80d002?w=400''
        [''Gluten'', ''Dairy''] ''cat-2'' ''Vegetarian'' 280 20,
      initialItem loaded ''item-3'' ''Caesar Salad''
        ''Fresh romaine lettuce with Caesar dressing, croutons, and parmesan'' (1299 / 100)
        ''https://images.unsplash.com/photo-1546793665-c74683f339c1?w=400''
        [''Gluten'', ''Dairy'', ''Eggs''] ''cat-1'' ''Vegetarian'' 180 8,
      initialItem loaded ''item-4'' ''Chocolate Lava Cake''
        ''Warm chocolate cake with molten center, served with vanilla ice cream'' (999 / 100)
        ''https://images.unsplash.com/photo-1624353365286-3f8d62daad51?w=400''
        [''Gluten'', ''Dairy'', ''Eggs''] ''cat-3'' ''None'' 320 15,
      initialItem loaded ''item-5'' ''Iced Latte''
        ''Smooth espresso with cold milk and ice'' (499 / 100)
        ''https://images.unsplash.com/photo-1509042239860-f550ce710b93?w=400''
        [''Dairy''] ''cat-4'' ''None'' 80 5]"

text \<open>
  \<open>new Map(initialCategoriesData.map(c => [c.id, c]))\<close>: the entries are set in
  order. The clock starts at \<open>t0\<close>.
\<close>

definition initialWorld :: "string \<Rightarrow> nat \<Rightarrow> world" where
  "initialWorld loaded t0 =
     \<lparr>categoryDB = fold (\<lambda>c m. AList.update (cat_id c) c m) initialCategoriesData [],
      menuItemDB = fold (\<lambda>i m. AList.update (item_id i) i m) (initialMenuItemsData loaded) [],
      now = t0, downloads = [], calls = []\<rparr>"

text \<open>A \<open>Map\<close> has one entry per key.\<close>

definition wf_world :: "world \<Rightarrow> bool" where
  "wf_world w = (distinct (map fst (categoryDB w)) \<and> distinct (map fst (menuItemDB w)))"

section \<open>Spreadsheet upload (App.tsx, handleExcelUpload)\<close>

text \<open>
  A row object of \<open>sheet_to_json\<close>: a property that is not there reads as
  \<open>undefined\<close>.
\<close>

type_synonym row = "string \<Rightarrow> cell"

text \<open>The variables the loop updates.\<close>

record upload_state =
  newItems :: "MenuItemData list"
  successCount :: nat
  errorCount :: nat
  errors :: "string list"
  categoryNameToIdMap :: "(string, string) jsmap"
  newCategoriesCreated :: nat

text \<open>\<open>errorCount++; errors.push(msg); continue\<close>\<close>

definition skipRow :: "string \<Rightarrow> upload_state \<Rightarrow> upload_state" where
  "skipRow msg s = s\<lparr>errorCount := errorCount s + 1, errors := errors s @ [msg]\<rparr>"

text \<open>\<open>Row with item "${row['Name'] || 'N/A'}" skipped: \<close>\<close>

definition rowLabel :: "runtime \<Rightarrow> row \<Rightarrow> string" where
  "rowLabel rt row =
     ''Row with item '' @ [CHR 0x22] @ String rt (or_else (row ''Name'') (Str ''N/A'')) @
     [CHR 0x22] @ '' skipped: ''"

text \<open>\<open>parseInt(String(c), 10) || d\<close>\<close>

definition parseInt_or :: "runtime \<Rightarrow> cell \<Rightarrow> number \<Rightarrow> number" where
  "parseInt_or rt c d =
     (let n = parseInt rt (String rt c) (Some 10) in if truthy_number n then n else d)"

text \<open>\<open>String(c || d)\<close>\<close>

definition String_or :: "runtime \<Rightarrow> cell \<Rightarrow> string \<Rightarrow> string" where
  "String_or rt c d = String rt (or_else c (Str d))"

text \<open>\<open>String(c).toLowerCase() === 'true'\<close>\<close>

definition isTrueCell :: "runtime \<Rightarrow> cell \<Rightarrow> bool" where
  "isTrueCell rt c = (toLowerCase rt (String rt c) = ''true'')"

text \<open>The object literal \<open>newItem\<close>, with the \<open>tenantId\<close> it is pushed with.\<close>

definition excelItem :: "runtime \<Rightarrow> row \<Rightarrow> string \<Rightarrow> number \<Rightarrow> MenuItemData" where
  "excelItem rt row cid p =
     \<lparr>name = String_or rt (row ''Name'') [],
      description = String_or rt (row ''Description'') [],
      price = p,
      currency = enum_or Currency_values (row ''Currency'') ''USD'',
      imageUrl = String_or rt (row ''Image URL'') ''https://picsum.photos/400/300'',
      videoUrl = Some (String_or rt (row ''Video URL'') []),
      allergens = [],
      categoryId = cid,
      availabilityFlag = isTrueCell rt (row ''Available''),
      tenantId = ''tenant-123'',
      displayName = Some (String_or rt (row ''Display Name'') []),
      itemCode = Some (String_or rt (row ''Item Code'') []),
      prepTime = Some (parseInt_or rt (row ''Prep Time (min)'') (Num 0)),
      soldOut = isTrueCell rt (row ''Sold Out''),
      portion = Some (String_or rt (row ''Portion'') []),
      specialType = Some (enum_or SpecialType_values (row ''Special Type'') ''None''),
      calories = Some (parseInt_or rt (row ''Calories'') (Num 0)),
      maxOrderQty = Some (parseInt_or rt (row ''Max Order Qty'') (Num 10)),
      bogo = isTrueCell rt (row ''BOGO''),
      complimentary = Some (String_or rt (row ''Complimentary'') []),
      imageOrientation =
        Some (enum_or ImageOrientation_values (row ''Image Orientation'') ''1:1''),
      availableTime = Some (String_or rt (row ''Available Time'') []),
      availableDate = Some (String_or rt (row ''Available Date'') [])\<rparr>"

text \<open>
  The \<open>try\<close> block that creates a missing category: on success the id is entered
  in the map under the lower-cased name and the counter goes up.
\<close>

definition createCategory ::
  "runtime \<Rightarrow> nat \<Rightarrow> cell \<Rightarrow> upload_state \<Rightarrow> world \<Rightarrow> (error + string) \<times> upload_state \<times> world"
  where
  "createCategory rt initialCategoryCount categoryName s w =
     (case addCategory
             \<lparr>cat_name = String rt categoryName,
              cat_description = ''Automatically created from Excel import'',
              sortOrder = Num (of_nat (initialCategoryCount + newCategoriesCreated s)),
              activeFlag = True,
              cat_tenantId = ''tenant-123''\<rparr> w of
        (Inl e, w1) \<Rightarrow> (Inl e, s, w1)
      | (Inr newCategory, w1) \<Rightarrow>
          (Inr (cat_id newCategory),
           s\<lparr>categoryNameToIdMap :=
                 AList.update (toLowerCase rt (cat_name newCategory)) (cat_id newCategory)
                   (categoryNameToIdMap s),
             newCategoriesCreated := newCategoriesCreated s + 1\<rparr>,
           w1))"

text \<open>
  \<open>categoryNameToIdMap.get(...)\<close>, then \<open>if (!categoryId)\<close>: an id that is
  \<open>undefined\<close> or the empty string is missing.
\<close>

definition resolveCategory ::
  "runtime \<Rightarrow> nat \<Rightarrow> cell \<Rightarrow> upload_state \<Rightarrow> world \<Rightarrow> (error + string) \<times> upload_state \<times> world"
  where
  "resolveCategory rt initialCategoryCount categoryName s w =
     (case map_of (categoryNameToIdMap s) (toLowerCase rt (String rt categoryName)) of
        None \<Rightarrow> createCategory rt initialCategoryCount categoryName s w
      | Some cid \<Rightarrow>
          if cid = [] then createCategory rt initialCategoryCount categoryName s w
          else (Inr cid, s, w))"

text \<open>The body of the loop, for one row.\<close>

definition uploadRow ::
  "runtime \<Rightarrow> nat \<Rightarrow> row \<Rightarrow> upload_state \<times> world \<Rightarrow> upload_state \<times> world" where
  "uploadRow rt initialCategoryCount row sw =
     (let (s, w) = sw;
          categoryName = or_else (row ''Category Name'') (row ''category_name'')
      in if \<not> truthy categoryName
         then (skipRow (rowLabel rt row @ ''Missing Category Name.'') s, w)
         else
           (case resolveCategory rt initialCategoryCount categoryName s w of
              (Inl catError, s1, w1) \<Rightarrow>
                (skipRow (rowLabel rt row @ ''Failed to auto-create category '' @ [CHR 0x22] @
                          String rt categoryName @ [CHR 0x22] @ ''.'') s1, w1)
            | (Inr cid, s1, w1) \<Rightarrow>
                let p = parseFloat_cell rt (row ''Price'') in
                if isNaN p \<or> le_zero p
                then (skipRow (rowLabel rt row @ ''Invalid or missing Price.'') s1, w1)
                else
                  let newItem = excelItem rt row cid p in
                  if name newItem = []
                  then (skipRow ''A row was skipped: Missing Item Name.'' s1, w1)
                  else (s1\<lparr>newItems := newItems s1 @ [newItem],
                            successCount := successCount s1 + 1\<rparr>, w1)))"

text \<open>\<open>for (const row of json)\<close>\<close>

fun uploadRows ::
  "runtime \<Rightarrow> nat \<Rightarrow> row list \<Rightarrow> upload_state \<times> world \<Rightarrow> upload_state \<times> world" where
  "uploadRows rt initialCategoryCount [] sw = sw"
| "uploadRows rt initialCategoryCount (row # rows) sw =
     uploadRows rt initialCategoryCount rows (uploadRow rt initialCategoryCount row sw)"

text \<open>
  The variables before the first row: the map is built from the categories the page
  holds, a later category of the same lower-cased name replacing an earlier one.
\<close>

definition uploadStart :: "runtime \<Rightarrow> MenuCategory list \<Rightarrow> upload_state" where
  "uploadStart rt categories =
     \<lparr>newItems = [], successCount = 0, errorCount = 0, errors = [],
      categoryNameToIdMap =
        fold (\<lambda>c m. AList.update (toLowerCase rt (cat_name c)) (cat_id c) m) categories [],
      newCategoriesCreated = 0\<rparr>"

text \<open>The toast: its message and its type.\<close>

definition uploadToast :: "upload_state \<Rightarrow> string \<times> string" where
  "uploadToast s =
     (let message =
            (if successCount s > 0
             then natToString (successCount s) @ '' items added successfully. '' else []) @
            (if errorCount s > 0 then natToString (errorCount s) @ '' items failed.'' else [])
      in (if message = [] then ''No items found in file.'' else message,
          if errorCount s > 0 then ''error'' else ''success''))"

record upload_result =
  final :: upload_state
  toast :: "string \<times> string"

text \<open>
  \<open>handleExcelUpload\<close>, from the parsed rows on: the loop, the batch call when an
  item was collected, the toast. A rejected call ends in the handler's \<open>catch\<close>.
  The refresh of the page that follows only reads the store.
\<close>

definition handleExcelUpload ::
  "runtime \<Rightarrow> MenuCategory list \<Rightarrow> row list \<Rightarrow> world \<Rightarrow> upload_result \<times> world" where
  "handleExcelUpload rt categories rows w =
     (let (s, w1) = uploadRows rt (length categories) rows (uploadStart rt categories, w)
      in if newItems s \<noteq> []
         then (case addMenuItemsBatch rt (newItems s) w1 of
                 (Inl e, w2) \<Rightarrow>
                   (\<lparr>final = s, toast = (''Failed to process the Excel file.'', ''error'')\<rparr>, w2)
               | (Inr n, w2) \<Rightarrow> (\<lparr>final = s, toast = uploadToast s\<rparr>, w2))
         else (\<lparr>final = s, toast = uploadToast s\<rparr>, w1))"

subsection \<open>Terms for stating what an upload does\<close>

text \<open>
  The key under which a row looks its category up, when it names one; whether the
  map resolves a key (to an id that is not empty); the categories that calls of
  \<open>addCategory\<close> made.
\<close>

definition rowKey :: "runtime \<Rightarrow> row \<Rightarrow> string option" where
  "rowKey rt row =
     (let categoryName = or_else (row ''Category Name'') (row ''category_name'')
      in if truthy categoryName then Some (toLowerCase rt (String rt categoryName)) else None)"

definition resolves :: "(string, string) jsmap \<Rightarrow> string \<Rightarrow> bool" where
  "resolves m k = (case map_of m k of None \<Rightarrow> False | Some cid \<Rightarrow> cid \<noteq> [])"

fun createdBy :: "api_call \<Rightarrow> MenuCategory list" where
  "createdBy (AddCategory c) = [c]"
| "createdBy _ = []"

definition created :: "api_call list \<Rightarrow> MenuCategory list" where
  "created cs = concat (map createdBy cs)"

fun batchOf :: "api_call \<Rightarrow> MenuItemData list list" where
  "batchOf (AddMenuItemsBatch xs) = [xs]"
| "batchOf _ = []"

definition batches :: "api_call list \<Rightarrow> MenuItemData list list" where
  "batches cs = concat (map batchOf cs)"

text \<open>
  The item a row contributes when its category id is read from the map \<open>m\<close>: none
  when the row names no category, when its price is \<open>NaN\<close> or not positive, or when
  its name is empty.
\<close>

definition rowItem :: "runtime \<Rightarrow> (string, string) jsmap \<Rightarrow> row \<Rightarrow> MenuItemData option" where
  "rowItem rt m row =
     (case rowKey rt row of
        None \<Rightarrow> None
      | Some k \<Rightarrow>
          let p = parseFloat_cell rt (row ''Price'') in
          if isNaN p \<or> le_zero p then None
          else
            let newItem = excelItem rt row (case map_of m k of None \<Rightarrow> [] | Some cid \<Rightarrow> cid) p
            in if name newItem = [] then None else Some newItem)"

text \<open>
  The message a row adds to \<open>errors\<close> when no category creation fails: for a row
  that names no category and for a row whose price is \<open>NaN\<close> or not positive, a text
  that starts with the row's label (its name, or "N/A"); for a row whose name is
  empty, a fixed text; none for a row that gives an item.
\<close>

definition rowMessage :: "runtime \<Rightarrow> row \<Rightarrow> string option" where
  "rowMessage rt row =
     (if \<not> truthy (or_else (row ''Category Name'') (row ''category_name''))
      then Some (rowLabel rt row @ ''Missing Category Name.'')
      else if isNaN (parseFloat_cell rt (row ''Price'')) \<or> le_zero (parseFloat_cell rt (row ''Price''))
      then Some (rowLabel rt row @ ''Invalid or missing Price.'')
      else if String_or rt (row ''Name'') [] = []
      then Some ''A row was skipped: Missing Item Name.''
      else None)"

text \<open>The category that \<open>createCategory\<close> asks for, with the id it gets at clock \<open>t\<close>.\<close>

definition autoCategory :: "runtime \<Rightarrow> nat \<Rightarrow> cell \<Rightarrow> nat \<Rightarrow> nat \<Rightarrow> MenuCategory" where
  "autoCategory rt initialCategoryCount categoryName k t =
     with_cat_id
       \<lparr>cat_name = String rt categoryName,
        cat_description = ''Automatically created from Excel import'',
        sortOrder = Num (of_nat (initialCategoryCount + k)),
        activeFlag = True,
        cat_tenantId = ''tenant-123''\<rparr> (''cat-'' @ natToString t)"

text \<open>The calls made between two states of the page.\<close>

definition callsSince :: "world \<Rightarrow> world \<Rightarrow> api_call list" where
  "callsSince w w' = drop (length (calls w)) (calls w')"

definition keyOf :: "runtime \<Rightarrow> MenuCategory \<Rightarrow> string" where
  "keyOf rt c = toLowerCase rt (cat_name c)"

text \<open>
  The sixteen ways to write "true" in upper and lower case, and what the comparison
  of a flag cell needs of two built-ins: \<open>toLowerCase\<close> gives "true" for exactly
  these spellings (no other character folds to one of its four letters), and the
  string of a number starts with a digit, with a minus sign, or with the first
  letter of \<open>NaN\<close> or of \<open>Infinity\<close>.
\<close>

definition spellsTrue :: "string \<Rightarrow> bool" where
  "spellsTrue s = list_all2 (\<lambda>c cases. c \<in> set cases) s [''tT'', ''rR'', ''uU'', ''eE'']"

definition foldsTrue :: "runtime \<Rightarrow> bool" where
  "foldsTrue rt = (\<forall>s. toLowerCase rt s = ''true'' \<longleftrightarrow> spellsTrue s)"

definition printsNumbers :: "runtime \<Rightarrow> bool" where
  "printsNumbers rt =
     (\<forall>n. case numberToString rt n of [] \<Rightarrow> False | c # cs \<Rightarrow> c \<in> set ''0123456789-NI'')"
section \<open>Import and export service (exportImportService.ts)\<close>

subsection \<open>Reading a CSV file\<close>

text \<open>
  \<open>parseCSVLine\<close>: the loop over the characters of the line, with its three
  variables.
\<close>

fun parseCSVLine_loop ::
  "runtime \<Rightarrow> string \<Rightarrow> string list \<Rightarrow> string \<Rightarrow> bool \<Rightarrow> string list" where
  "parseCSVLine_loop rt [] result current inQuotes = result @ [trim rt current]"
| "parseCSVLine_loop rt (c # cs) result current inQuotes =
     (if c = CHR 0x22 then parseCSVLine_loop rt cs result current (\<not> inQuotes)
      else if c = CHR '','' \<and> \<not> inQuotes
      then parseCSVLine_loop rt cs (result @ [trim rt current]) [] inQuotes
      else parseCSVLine_loop rt cs result (current @ [c]) inQuotes)"

definition parseCSVLine :: "runtime \<Rightarrow> string \<Rightarrow> string list" where
  "parseCSVLine rt line = parseCSVLine_loop rt line [] [] False"

text \<open>\<open>lines[0].split(',').map(h => h.trim().replace(/"/g, ''))\<close>\<close>

definition parseHeaders :: "runtime \<Rightarrow> string \<Rightarrow> string list" where
  "parseHeaders rt line = map (\<lambda>h. stripQuotes (trim rt h)) (split CHR '','' line)"

fun findIndex :: "('a \<Rightarrow> bool) \<Rightarrow> 'a list \<Rightarrow> nat option" where
  "findIndex P [] = None"
| "findIndex P (x # xs) = (if P x then Some 0 else map_option Suc (findIndex P xs))"

text \<open>
  \<open>getValue\<close>: the value under the first header that contains the wanted name,
  whatever the case; \<open>values[index]\<close> is \<open>undefined\<close> past the end of the line.
\<close>

definition getValue :: "runtime \<Rightarrow> string list \<Rightarrow> string list \<Rightarrow> string \<Rightarrow> cell" where
  "getValue rt values headers header =
     (case findIndex (\<lambda>h. includes_str (toLowerCase rt h) (toLowerCase rt header)) headers of
        None \<Rightarrow> Str []
      | Some index \<Rightarrow> if index < length values then Str (values ! index) else Undefined)"

text \<open>\<open>c || d\<close> for a string \<open>d\<close>, and \<open>c || undefined\<close>.\<close>

definition str_or :: "cell \<Rightarrow> string \<Rightarrow> string" where
  "str_or c d = (case or_else c (Str d) of Str s \<Rightarrow> s | _ \<Rightarrow> d)"

definition str_opt :: "cell \<Rightarrow> string option" where
  "str_opt c = (case c of Str s \<Rightarrow> if s = [] then None else Some s | _ \<Rightarrow> None)"

text \<open>\<open>parseInt(c) || undefined\<close>: no radix is given.\<close>

definition parseInt_opt :: "runtime \<Rightarrow> cell \<Rightarrow> number option" where
  "parseInt_opt rt c =
     (let n = (case c of Str s \<Rightarrow> parseInt rt s None | _ \<Rightarrow> NaN)
      in if truthy_number n then Some n else None)"

text \<open>
  \<open>createMenuItemFromCSV\<close>. Calling \<open>replace\<close> on \<open>undefined\<close> throws a
  \<open>TypeError\<close> (the message is the engine's); an empty name or description gives
  \<open>null\<close>. \<open>rid1\<close> and \<open>rid2\<close> are what \<open>generateId()\<close> returns if it is called for
  the id and for the category id, \<open>t\<close> is the clock.
\<close>

definition typeError_replace :: error where
  "typeError_replace =
     Error (''Cannot read properties of undefined (reading '' @ [CHR 0x27] @ ''replace'' @
            [CHR 0x27] @ '')'')"

definition createMenuItemFromCSV ::
  "runtime \<Rightarrow> nat \<Rightarrow> string \<Rightarrow> string \<Rightarrow> string list \<Rightarrow> string list \<Rightarrow> error + MenuItem option"
  where
  "createMenuItemFromCSV rt t rid1 rid2 values headers =
     (let get = getValue rt values headers;
          i = str_or (get ''ID'') rid1
      in case get ''Name'' of
           Str rawName \<Rightarrow>
             (case get ''Description'' of
                Str rawDescription \<Rightarrow>
                  let n = stripQuotes rawName;
                      d = stripQuotes rawDescription;
                      f = parseFloat_cell rt (get ''Price'');
                      p = (if truthy_number f then f else Num 0);
                      cur = str_or (get ''Currency'') ''USD'';
                      cid = str_or (get ''Category ID'') rid2
                  in if n = [] \<or> d = [] then Inr None
                     else Inr (Some
                       \<lparr>name = n, description = d, price = p, currency = cur, imageUrl = [],
                        videoUrl = None,
                        allergens =
                          (if truthy (get ''Allergens'')
                           then map (trim rt) (split CHR '';'' (String rt (get ''Allergens'')))
                           else []),
                        categoryId = cid,
                        availabilityFlag = (get ''Availability Flag'' = Str ''true''),
                        tenantId = ''tenant-123'',
                        displayName = None, itemCode = None,
                        prepTime = parseInt_opt rt (get ''Prep Time''),
                        soldOut = (get ''Sold Out'' = Str ''true''),
                        portion = None,
                        specialType = str_opt (get ''Special Type''),
                        calories = parseInt_opt rt (get ''Calories''),
                        maxOrderQty = parseInt_opt rt (get ''Max Order Qty''),
                        bogo = (get ''BOGO'' = Str ''true''),
                        complimentary = str_opt (get ''Complimentary''),
                        imageOrientation = str_opt (get ''Image Orientation''),
                        availableTime = None, availableDate = None,
                        item_id = i,
                        createdAt = str_or (get ''Created At'') (toISOString rt t),
                        updatedAt = toISOString rt t\<rparr>)
              | _ \<Rightarrow> Inl typeError_replace)
         | _ \<Rightarrow> Inl typeError_replace)"


record ImportResult =
  success :: bool
  message :: string
  importedItems :: "MenuItem list option"
  importedCategories :: "MenuCategory list option"
  result_errors :: "string list option"



subsection \<open>Validating parsed JSON\<close>

datatype json =
    JNull
  | JBool bool
  | JNum number
  | JStr string
  | JArr "json list"
  | JObj "(string \<times> json) list"

text \<open>\<open>typeof item.key\<close>, for an item that is truthy: only an object has the property
  (the last one of that name, as \<open>JSON.parse\<close> keeps it).\<close>

fun typeof_prop :: "json \<Rightarrow> string \<Rightarrow> string" where
  "typeof_prop (JObj ps) key =
     (case map_of (rev ps) key of
        None \<Rightarrow> ''undefined''
      | Some JNull \<Rightarrow> ''object''
      | Some (JBool b) \<Rightarrow> ''boolean''
      | Some (JNum n) \<Rightarrow> ''number''
      | Some (JStr s) \<Rightarrow> ''string''
      | Some (JArr xs) \<Rightarrow> ''object''
      | Some (JObj qs) \<Rightarrow> ''object'')"
| "typeof_prop _ key = ''undefined''"

fun truthy_json :: "json \<Rightarrow> bool" where
  "truthy_json JNull = False"
| "truthy_json (JBool b) = b"
| "truthy_json (JNum n) = truthy_number n"
| "truthy_json (JStr s) = (s \<noteq> [])"
| "truthy_json (JArr xs) = True"
| "truthy_json (JObj ps) = True"

definition validateMenuItem :: "json \<Rightarrow> bool" where
  "validateMenuItem item =
     (truthy_json item \<and>
      typeof_prop item ''name'' = ''string'' \<and>
      typeof_prop item ''description'' = ''string'' \<and>
      typeof_prop item ''price'' = ''number'' \<and>
      typeof_prop item ''categoryId'' = ''string'')"

subsection \<open>Writing an export\<close>

text \<open>An optional field as a value, \<open>undefined\<close> when it is absent.\<close>

definition opt_str :: "string option \<Rightarrow> cell" where
  "opt_str x = (case x of None \<Rightarrow> Undefined | Some s \<Rightarrow> Str s)"

definition opt_num :: "number option \<Rightarrow> cell" where
  "opt_num x = (case x of None \<Rightarrow> Undefined | Some n \<Rightarrow> Number n)"

text \<open>\<open>row.join(',')\<close>: an element that is \<open>undefined\<close> prints as nothing.\<close>

definition joinCells :: "runtime \<Rightarrow> string \<Rightarrow> cell list \<Rightarrow> string" where
  "joinCells rt sep cs = join sep (map (\<lambda>c. case c of Undefined \<Rightarrow> [] | _ \<Rightarrow> String rt c) cs)"

definition quoted :: "string \<Rightarrow> cell" where
  "quoted s = Str ([CHR 0x22] @ s @ [CHR 0x22])"

text \<open>\<open>menu-export-${new Date().toISOString().split('T')[0]}.ext\<close>\<close>

definition exportFileName :: "runtime \<Rightarrow> nat \<Rightarrow> string \<Rightarrow> string" where
  "exportFileName rt t ext =
     ''menu-export-'' @ (case split CHR ''T'' (toISOString rt t) of [] \<Rightarrow> [] | d # _ \<Rightarrow> d) @
     ''.'' @ ext"

definition download :: "string \<Rightarrow> artifact \<Rightarrow> world \<Rightarrow> world" where
  "download file a w = w\<lparr>downloads := downloads w @ [(file, a)]\<rparr>"

definition csvHeaders :: "string list" where
  "csvHeaders =
     [''ID'', ''Name'', ''Description'', ''Price'', ''Currency'', ''Category ID'', ''Category Name'',
      ''Special Type'', ''Allergens'', ''Availability Flag'', ''Sold Out'', ''Prep Time (min)'',
      ''Calories'', ''Max Order Qty'', ''BOGO'', ''Complimentary'', ''Image Orientation'',
      ''Created At'', ''Updated At'']"

text \<open>\<open>category?.name || ''\<close> for \<open>categories.find(cat => cat.id === item.categoryId)\<close>\<close>

definition categoryNameOf :: "MenuCategory list \<Rightarrow> MenuItem \<Rightarrow> string" where
  "categoryNameOf categories item =
     (case find (\<lambda>cat. cat_id cat = categoryId item) categories of
        None \<Rightarrow> []
      | Some category \<Rightarrow> cat_name category)"

definition csvRow :: "MenuCategory list \<Rightarrow> MenuItem \<Rightarrow> cell list" where
  "csvRow categories item =
     [Str (item_id item),
      quoted (name item),
      quoted (description item),
      Number (price item),
      Str (currency item),
      Str (categoryId item),
      quoted (categoryNameOf categories item),
      or_else (opt_str (specialType item)) (Str []),
      Str (join '';'' (allergens item)),
      Boolean (availabilityFlag item),
      Boolean (soldOut item),
      or_else (opt_num (prepTime item)) (Str []),
      or_else (opt_num (calories item)) (Str []),
      or_else (opt_num (maxOrderQty item)) (Str []),
      Boolean (bogo item),
      quoted (str_or (opt_str (complimentary item)) []),
      or_else (opt_str (imageOrientation item)) (Str []),
      Str (createdAt item),
      Str (updatedAt item)]"

definition exportToCSV ::
  "runtime \<Rightarrow> MenuItem list \<Rightarrow> MenuCategory list \<Rightarrow> ExportOptions \<Rightarrow> world
     \<Rightarrow> (error + unit) \<times> world" where
  "exportToCSV rt menuItems categories options w =
     (let rows = map (csvRow categories) menuItems;
          csvContent = join [CHR 0x0A] (map (joinCells rt '','') (map (map Str) [csvHeaders] @ rows))
      in (Inr (), download (exportFileName rt (now w) ''csv'') (CsvFile csvContent) w))"

definition exportToJSON ::
  "runtime \<Rightarrow> MenuItem list \<Rightarrow> MenuCategory list \<Rightarrow> ExportOptions \<Rightarrow> world
     \<Rightarrow> (error + unit) \<times> world" where
  "exportToJSON rt menuItems categories options w =
     (let exportData =
            \<lparr>exportDate = toISOString rt (now w),
             version = ''1.0'',
             metadata =
               (if includeMetadata options = Some True
                then Some \<lparr>totalItems = length menuItems, totalCategories = length categories,
                           exportOptions = options\<rparr>
                else None),
             json_categories = categories,
             json_menuItems = menuItems\<rparr>
      in (Inr (), download (exportFileName rt (now w) ''json'') (JsonFile exportData) w))"

text \<open>
  The sums of the Summary sheet. Two finite numbers add exactly here; the rounding
  of float64 addition is not modelled, and no statement below depends on these
  values.
\<close>

fun add_number :: "number \<Rightarrow> number \<Rightarrow> number" where
  "add_number (Num a) (Num b) = Num (a + b)"
| "add_number NaN _ = NaN"
| "add_number _ NaN = NaN"
| "add_number PosInfinity NegInfinity = NaN"
| "add_number NegInfinity PosInfinity = NaN"
| "add_number PosInfinity _ = PosInfinity"
| "add_number _ PosInfinity = PosInfinity"
| "add_number NegInfinity _ = NegInfinity"
| "add_number _ NegInfinity = NegInfinity"

text \<open>\<open>x / n\<close> for a length \<open>n > 0\<close>.\<close>

fun div_number :: "number \<Rightarrow> nat \<Rightarrow> number" where
  "div_number (Num a) n = Num (a / of_nat n)"
| "div_number x n = x"

definition totalPrice :: "MenuItem list \<Rightarrow> number" where
  "totalPrice menuItems = foldl (\<lambda>sum item. add_number sum (price item)) (Num 0) menuItems"

definition categoriesSheet :: "MenuCategory list \<Rightarrow> sheet_row list" where
  "categoriesSheet categories =
     map (\<lambda>cat. [(''ID'', Str (cat_id cat)), (''Name'', Str (cat_name cat)),
                 (''Description'', Str (cat_description cat)), (''Sort Order'', Number (sortOrder cat)),
                 (''Active'', Boolean (activeFlag cat)), (''Tenant ID'', Str (cat_tenantId cat))])
       categories"

definition menuItemsSheet :: "MenuCategory list \<Rightarrow> MenuItem list \<Rightarrow> sheet_row list" where
  "menuItemsSheet categories menuItems =
     map (\<lambda>item.
            [(''ID'', Str (item_id item)),
             (''Name'', Str (name item)),
             (''Description'', Str (description item)),
             (''Price'', Number (price item)),
             (''Currency'', Str (currency item)),
             (''Category ID'', Str (categoryId item)),
             (''Category Name'', Str (categoryNameOf categories item)),
             (''Special Type'', or_else (opt_str (specialType item)) (Str [])),
             (''Allergens'', Str (join ''; '' (allergens item))),
             (''Availability Flag'', Boolean (availabilityFlag item)),
             (''Sold Out'', Boolean (soldOut item)),
             (''Prep Time (min)'', or_else (opt_num (prepTime item)) (Str [])),
             (''Calories'', or_else (opt_num (calories item)) (Str [])),
             (''Max Order Qty'', or_else (opt_num (maxOrderQty item)) (Str [])),
             (''BOGO'', Boolean (bogo item)),
             (''Complimentary'', or_else (opt_str (complimentary item)) (Str [])),
             (''Image Orientation'', or_else (opt_str (imageOrientation item)) (Str [])),
             (''Created At'', Str (createdAt item)),
             (''Updated At'', Str (updatedAt item))])
       menuItems"

definition summarySheet :: "runtime \<Rightarrow> nat \<Rightarrow> MenuCategory list \<Rightarrow> MenuItem list \<Rightarrow> sheet_row list"
  where
  "summarySheet rt t categories menuItems =
     map (\<lambda>(metric, v). [(''Metric'', Str metric), (''Value'', v)])
       [(''Total Categories'', Number (Num (of_nat (length categories)))),
        (''Total Menu Items'', Number (Num (of_nat (length menuItems)))),
        (''Available Items'',
           Number (Num (of_nat (length (filter (\<lambda>item. \<not> soldOut item) menuItems))))),
        (''Total Menu Value'', Number (totalPrice menuItems)),
        (''Average Price'',
           Number (if length menuItems > 0
                   then div_number (totalPrice menuItems) (length menuItems) else Num 0)),
        (''Export Date'', Str (toISOString rt t))]"

definition exportToXLSX ::
  "runtime \<Rightarrow> MenuItem list \<Rightarrow> MenuCategory list \<Rightarrow> ExportOptions \<Rightarrow> world
     \<Rightarrow> (error + unit) \<times> world" where
  "exportToXLSX rt menuItems categories options w =
     (if \<not> xlsxDefined rt
      then (Inl (Error
              ''XLSX library not available. Please install xlsx package for Excel export.''), w)
      else
        let workbook =
              [(''Categories'', categoriesSheet categories),
               (''Menu Items'', menuItemsSheet categories menuItems),
               (''Summary'', summarySheet rt (now w) categories menuItems)]
        in (Inr (), download (exportFileName rt (now w) ''xlsx'') (XlsxFile workbook) w))"

text \<open>\<open>exportData\<close>: the \<open>catch\<close> logs and throws the error again.\<close>

definition exportData ::
  "runtime \<Rightarrow> MenuItem list \<Rightarrow> MenuCategory list \<Rightarrow> ExportOptions \<Rightarrow> world
     \<Rightarrow> (error + unit) \<times> world" where
  "exportData rt menuItems categories options w =
     (case format options of
        Csv \<Rightarrow> exportToCSV rt menuItems categories options w
      | Json \<Rightarrow> exportToJSON rt menuItems categories options w
      | Xlsx \<Rightarrow> exportToXLSX rt menuItems categories options w)"

section \<open>The export handlers of the page (App.tsx)\<close>

text \<open>
  \<open>handleExport\<close>: the toast it shows, and the state afterwards. \<open>opts\<close> is the
  page's \<open>exportOptions\<close>.
\<close>

definition handleExport ::
  "runtime \<Rightarrow> MenuItem list \<Rightarrow> MenuItem list \<Rightarrow> MenuCategory list \<Rightarrow> ExportOptions \<Rightarrow> world
     \<Rightarrow> (string \<times> string) \<times> world" where
  "handleExport rt filteredMenuItems menuItems categories opts w =
     (case exportData rt (if length filteredMenuItems > 0 then filteredMenuItems else menuItems)
             categories opts w of
        (Inr u, w1) \<Rightarrow> ((''Export completed successfully!'', ''success''), w1)
      | (Inl e, w1) \<Rightarrow> ((''Export failed'', ''error''), w1))"

text \<open>
  \<open>handleExcelExport\<close>. Using \<open>XLSX\<close> when it is not defined throws, and the
  \<open>catch\<close> shows the failure. The column widths set on the sheet are presentation
  only and left out.
\<close>

definition excelExportRow :: "(string, string) jsmap \<Rightarrow> MenuItem \<Rightarrow> sheet_row" where
  "excelExportRow categoryMap item =
     [(''ID'', Str (item_id item)),
      (''Name'', Str (name item)),
      (''Display Name'', opt_str (displayName item)),
      (''Description'', Str (description item)),
      (''Item Code'', opt_str (itemCode item)),
      (''Category Name'',
         or_else (opt_str (map_of categoryMap (categoryId item))) (Str ''N/A'')),
      (''Price'', Number (price item)),
      (''Currency'', Str (currency item)),
      (''Available'', Boolean (availabilityFlag item)),
      (''Sold Out'', Boolean (soldOut item)),
      (''Prep Time (min)'', opt_num (prepTime item)),
      (''Portion'', opt_str (portion item)),
      (''Calories'', opt_num (calories item)),
      (''Special Type'', opt_str (specialType item)),
      (''Max Order Qty'', opt_num (maxOrderQty item)),
      (''BOGO'', Boolean (bogo item)),
      (''Complimentary'', opt_str (complimentary item)),
      (''Allergens'', Str (join '', '' (allergens item))),
      (''Image URL'', Str (imageUrl item)),
      (''Video URL'', opt_str (videoUrl item)),
      (''Image Orientation'', opt_str (imageOrientation item)),
      (''Available Time'', opt_str (availableTime item)),
      (''Available Date'', opt_str (availableDate item))]"

definition handleExcelExport ::
  "runtime \<Rightarrow> MenuCategory list \<Rightarrow> world \<Rightarrow> (string \<times> string) \<times> world" where
  "handleExcelExport rt categories w =
     (let (allItems, w1) = getAllMenuItems ''tenant-123'' w
      in if length allItems = 0 then ((''No items to export.'', ''error''), w1)
         else
           let categoryMap = fold (\<lambda>c m. AList.update (cat_id c) (cat_name c) m) categories [];
               dataToExport = map (excelExportRow categoryMap) allItems
           in if \<not> xlsxDefined rt then ((''Failed to export data.'', ''error''), w1)
              else ((''Exported successfully!'', ''success''),
                    download ''Smartler_F&B_Menu_Export.xlsx''
                      (XlsxFile [(''Menu Items'', dataToExport)]) w1))"

subsection \<open>The handlers inside the component\<close>



subsection \<open>Terms for stating what the CSV importer does\<close>


text \<open>The price, and the three flags, of the item a call returned, if it returned one.\<close>

definition itemPrice :: "error + MenuItem option \<Rightarrow> number option" where
  "itemPrice r = (case r of Inr (Some item) \<Rightarrow> Some (price item) | _ \<Rightarrow> None)"

definition itemFlags :: "error + MenuItem option \<Rightarrow> (bool \<times> bool \<times> bool) option" where
  "itemFlags r =
     (case r of
        Inr (Some item) \<Rightarrow> Some (availabilityFlag item, soldOut item, bogo item)
      | _ \<Rightarrow> None)"



definition headersOf :: "runtime \<Rightarrow> string \<Rightarrow> string list" where
  "headersOf rt csv = parseHeaders rt (case split CHR 0x0A csv of [] \<Rightarrow> [] | l # _ \<Rightarrow> l)"

section \<open>Inputs for the examples\<close>

text \<open>A row object with the given properties.\<close>

definition rowOf :: "(string \<times> cell) list \<Rightarrow> row" where
  "rowOf ps = (\<lambda>key. case map_of ps key of None \<Rightarrow> Undefined | Some c \<Rightarrow> c)"

definition colaRow :: row where
  "colaRow = rowOf [(''Name'', Str ''Cola''), (''Category Name'', Str ''Drinks''),
                    (''Price'', Number (Num 2)), (''Available'', Str ''TRUE'')]"

definition teaRow :: row where
  "teaRow = rowOf [(''Name'', Str ''Tea''), (''category_name'', Str ''DRINKS''),
                   (''Price'', Str ''3''), (''BOGO'', Boolean True)]"

definition freeRow :: row where
  "freeRow = rowOf [(''Name'', Str ''Water''), (''Category Name'', Str ''Beverages''),
                    (''Price'', Str ''0'')]"

definition negativeRow :: row where
  "negativeRow = rowOf [(''Name'', Str ''Refund''), (''Category Name'', Str ''Beverages''),
                        (''Price'', Str ''-5'')]"

definition wordRow :: row where
  "wordRow = rowOf [(''Name'', Str ''Soup''), (''Category Name'', Str ''Appetizers''),
                    (''Price'', Str ''abc'')]"

definition unpricedRow :: row where
  "unpricedRow = rowOf [(''Name'', Str ''Bread''), (''Category Name'', Str ''Appetizers'')]"


definition prefixRow :: row where
  "prefixRow = rowOf [(''Name'', Str ''Juice''), (''Category Name'', Str ''Beverages''),
                      (''Price'', Str ''5abc'')]"

text \<open>The page just after loading: the initial store at clock 0.\<close>

definition page0 :: world where
  "page0 = initialWorld ''1970-01-01T00:00:00.000Z'' 0"



definition refundHeaders :: "string list" where
  "refundHeaders = [''Name'', ''Description'', ''Price'', ''Availability Flag'']"

definition refundValues :: "string list" where
  "refundValues = [''Refund'', ''Money back'', ''-5'', ''TRUE'']"

definition quotedHeaderLine :: string where
  "quotedHeaderLine = [CHR 0x22] @ ''Name, Full'' @ [CHR 0x22] @ '',Description''"

text \<open>A page whose item store is empty, and the export options of the page in the
  three formats.\<close>

definition emptyPage :: world where
  "emptyPage = page0\<lparr>menuItemDB := []\<rparr>"

definition csvOptions :: ExportOptions where
  "csvOptions = \<lparr>format = Csv, includeImages = Some False, includeMetadata = Some True,
                  dateRange = None\<rparr>"

definition jsonOptions :: ExportOptions where
  "jsonOptions = csvOptions\<lparr>format := Json\<rparr>"

definition xlsxOptions :: ExportOptions where
  "xlsxOptions = csvOptions\<lparr>format := Xlsx\<rparr>"

section \<open>Store lemmas\<close>

lemma has_iff: "has m k \<longleftrightarrow> k \<in> fst ` set m"
  by (simp add: has_def map_of_eq_None_iff)

lemma fold_delete_filter:
  "fold AList.delete ks m = filter (\<lambda>(k, v). k \<notin> set ks) m"
proof (induction ks arbitrary: m)
  case Nil
  show ?case by simp
next
  case (Cons a ks)
  have "filter (\<lambda>(k, v). k \<notin> set ks) (AList.delete a m) = filter (\<lambda>(k, v). k \<notin> set (a # ks)) m"
    by (induction m) (auto simp: AList.delete_eq)
  with Cons.IH [of "AList.delete a m"] show ?case by simp
qed

lemma cascade_filter:
  assumes "distinct (map fst m)"
  shows "fold AList.delete (map fst (filter (\<lambda>(k, v). P v) m)) m = filter (\<lambda>(k, v). \<not> P v) m"
proof -
  have "(k \<notin> set (map fst (filter (\<lambda>(k, v). P v) m))) = (\<not> P v)" if kv: "(k, v) \<in> set m" for k v
  proof
    assume "k \<notin> set (map fst (filter (\<lambda>(k, v). P v) m))"
    with kv show "\<not> P v" by (auto simp: image_iff)
  next
    assume np: "\<not> P v"
    show "k \<notin> set (map fst (filter (\<lambda>(k, v). P v) m))"
    proof
      assume "k \<in> set (map fst (filter (\<lambda>(k, v). P v) m))"
      then obtain v' where v': "(k, v') \<in> set m" "P v'" by auto
      from assms v'(1) kv have "v' = v" by (rule eq_key_imp_eq_value)
      with v'(2) np show False by simp
    qed
  qed
  then show ?thesis
    unfolding fold_delete_filter by (intro filter_cong) auto
qed

lemma sd_simps: "categoryDB (simulateDelay d w) = categoryDB w" "menuItemDB (simulateDelay d w) = menuItemDB w"
    "calls (simulateDelay d w) = calls w" "now (simulateDelay d w) = now w + d"
  by (simp_all add: simulateDelay_def)

lemma lc_simps: "categoryDB (logCall c w) = categoryDB w" "menuItemDB (logCall c w) = menuItemDB w"
    "calls (logCall c w) = calls w @ [c]" "now (logCall c w) = now w"
  by (simp_all add: logCall_def)

lemma map_of_filter_key:
  "map_of (filter (\<lambda>(k, v). k \<noteq> a) m) k = (if k = a then None else map_of m k)"
  by (induction m) auto

lemma map_of_filter_val:
  "distinct (map fst m) \<Longrightarrow>
   map_of (filter (\<lambda>(k, v). P v) m) k =
     (case map_of m k of None \<Rightarrow> None | Some v \<Rightarrow> if P v then Some v else None)"
proof (induction m)
  case Nil
  show ?case by simp
next
  case (Cons x m)
  obtain a b where x: "x = (a, b)" by (cases x)
  from Cons.prems x have a: "a \<notin> fst ` set m" and d: "distinct (map fst m)" by auto
  from a have "map_of (filter (\<lambda>(k, v). P v) m) a = None"
    by (auto simp: map_of_eq_None_iff)
  with Cons.IH [OF d] x show ?case by (simp split: option.splits)
qed

lemma delete_as_filter: "AList.delete a m = filter (\<lambda>(k, v). k \<noteq> a) m"
  by (induction m) auto

text \<open>
  Claim C9. Deleting a category that is in the category store succeeds, removes that
  category and every menu item whose \<open>categoryId\<close> is its id, and leaves every other
  category and every item of another category as it was, in the same order.
\<close>

theorem deleteCategory_cascade:
  assumes "wf_world w" and "has (categoryDB w) cid"
  shows "fst (deleteCategory cid w) = Inr () \<and>
         categoryDB (snd (deleteCategory cid w)) = filter (\<lambda>(k, c). k \<noteq> cid) (categoryDB w) \<and>
         menuItemDB (snd (deleteCategory cid w)) =
           filter (\<lambda>(k, item). categoryId item \<noteq> cid) (menuItemDB w) \<and>
         \<not> has (categoryDB (snd (deleteCategory cid w))) cid \<and>
         (\<forall>k. k \<noteq> cid \<longrightarrow>
            map_of (categoryDB (snd (deleteCategory cid w))) k = map_of (categoryDB w) k) \<and>
         (\<forall>k. map_of (menuItemDB (snd (deleteCategory cid w))) k =
            (case map_of (menuItemDB w) k of
               None \<Rightarrow> None
             | Some item \<Rightarrow> if categoryId item = cid then None else Some item))"
proof -
  let ?w' = "snd (deleteCategory cid w)"
  from assms(1) have d: "distinct (map fst (menuItemDB w))" by (simp add: wf_world_def)
  have r: "fst (deleteCategory cid w) = Inr ()"
    using assms(2) by (simp add: deleteCategory_def Let_def lc_simps)
  have c: "categoryDB ?w' = filter (\<lambda>(k, c). k \<noteq> cid) (categoryDB w)"
    using assms(2)
    by (simp add: deleteCategory_def Let_def lc_simps sd_simps delete_as_filter)
  have i: "menuItemDB ?w' = filter (\<lambda>(k, item). categoryId item \<noteq> cid) (menuItemDB w)"
    using assms(2) cascade_filter [OF d, of "\<lambda>item. categoryId item = cid"]
    by (simp add: deleteCategory_def Let_def lc_simps sd_simps)
  have nh: "\<not> has (categoryDB ?w') cid"
    unfolding c has_def by (simp add: map_of_filter_key)
  have oc: "map_of (categoryDB ?w') k = map_of (categoryDB w) k" if "k \<noteq> cid" for k
    unfolding c using that by (simp add: map_of_filter_key)
  have oi: "map_of (menuItemDB ?w') k =
            (case map_of (menuItemDB w) k of
               None \<Rightarrow> None
             | Some item \<Rightarrow> if categoryId item = cid then None else Some item)" for k
    unfolding i using map_of_filter_val [OF d, of "\<lambda>item. categoryId item \<noteq> cid" k]
    by (simp split: option.splits)
  from r c i nh oc oi show ?thesis by blast
qed

subsection \<open>The initial store\<close>

lemma initial_categoryDB:
  "map fst (categoryDB (initialWorld l t)) = [''cat-1'', ''cat-2'', ''cat-3'', ''cat-4'']"
  by (simp add: initialWorld_def initialCategoriesData_def initialCategory_def)

lemma initial_menuItemDB:
  "map (\<lambda>(k, i). (k, categoryId i)) (menuItemDB (initialWorld l t)) =
     [(''item-1'', ''cat-1''), (''item-2'', ''cat-2''), (''item-3'', ''cat-1''),
      (''item-4'', ''cat-3''), (''item-5'', ''cat-4'')]"
  by (simp add: initialWorld_def initialMenuItemsData_def initialItem_def)

lemma wf_initialWorld: "wf_world (initialWorld l t)"
proof -
  have "map fst (menuItemDB (initialWorld l t)) =
          map fst (map (\<lambda>(k, i). (k, categoryId i)) (menuItemDB (initialWorld l t)))"
    by (simp add: split_def comp_def)
  then show ?thesis
    unfolding wf_world_def initial_categoryDB initial_menuItemDB by simp
qed

theorem deleteCategory_cascade_witness:
  "wf_world (initialWorld ''2024'' 0) \<and> has (categoryDB (initialWorld ''2024'' 0)) ''cat-1'' \<and>
   fst (deleteCategory ''cat-1'' (initialWorld ''2024'' 0)) = Inr () \<and>
   map fst (categoryDB (snd (deleteCategory ''cat-1'' (initialWorld ''2024'' 0)))) =
     [''cat-2'', ''cat-3'', ''cat-4''] \<and>
   map fst (menuItemDB (snd (deleteCategory ''cat-1'' (initialWorld ''2024'' 0)))) =
     [''item-2'', ''item-4'', ''item-5'']"
proof -
  let ?w = "initialWorld ''2024'' 0"
  have h: "has (categoryDB ?w) ''cat-1''"
  proof -
    have "''cat-1'' \<in> set (map fst (categoryDB ?w))"
      unfolding initial_categoryDB by simp
    then show ?thesis by (simp add: has_iff)
  qed
  note t = deleteCategory_cascade [OF wf_initialWorld h]
  from t have r: "fst (deleteCategory ''cat-1'' ?w) = Inr ()"
    by (rule conjunct1)
  from t have c: "categoryDB (snd (deleteCategory ''cat-1'' ?w)) =
                    filter (\<lambda>(k, c). k \<noteq> ''cat-1'') (categoryDB ?w)"
    by (elim conjE)
  from t have i: "menuItemDB (snd (deleteCategory ''cat-1'' ?w)) =
                    filter (\<lambda>(k, item). categoryId item \<noteq> ''cat-1'') (menuItemDB ?w)"
    by (elim conjE)
  have c': "map fst (filter (\<lambda>(k, c). k \<noteq> ''cat-1'') (categoryDB ?w)) =
             filter (\<lambda>k. k \<noteq> ''cat-1'') (map fst (categoryDB ?w))"
    by (simp add: filter_map comp_def split_def)
  have i': "map fst (filter (\<lambda>(k, item). categoryId item \<noteq> ''cat-1'') (menuItemDB ?w)) =
             map fst (filter (\<lambda>(k, c). c \<noteq> ''cat-1'')
               (map (\<lambda>(k, i). (k, categoryId i)) (menuItemDB ?w)))"
    by (simp add: filter_map comp_def split_def)
  have c'': "map fst (categoryDB (snd (deleteCategory ''cat-1'' ?w))) =
               [''cat-2'', ''cat-3'', ''cat-4'']"
    unfolding c c' initial_categoryDB by simp
  have i'': "map fst (menuItemDB (snd (deleteCategory ''cat-1'' ?w))) =
               [''item-2'', ''item-4'', ''item-5'']"
    unfolding i i' initial_menuItemDB by simp
  from h r c'' i'' show ?thesis by (simp add: wf_initialWorld)
qed

text \<open>
  Claim C10. When the id is not in the store concerned, \<open>updateCategory\<close>,
  \<open>deleteCategory\<close>, \<open>updateMenuItem\<close> and \<open>deleteMenuItem\<close> each fail with the
  "not found" error of their store, and the category store and the item store are
  what they were before the call.
\<close>

theorem not_found_leaves_stores:
  "(\<not> has (categoryDB w) (cat_id c) \<longrightarrow>
      fst (updateCategory c w) = Inl (Error ''Category not found'') \<and>
      categoryDB (snd (updateCategory c w)) = categoryDB w \<and>
      menuItemDB (snd (updateCategory c w)) = menuItemDB w) \<and>
   (\<not> has (categoryDB w) cid \<longrightarrow>
      fst (deleteCategory cid w) = Inl (Error ''Category not found'') \<and>
      categoryDB (snd (deleteCategory cid w)) = categoryDB w \<and>
      menuItemDB (snd (deleteCategory cid w)) = menuItemDB w) \<and>
   (\<not> has (menuItemDB w) (item_id i) \<longrightarrow>
      fst (updateMenuItem rt i w) = Inl (Error ''Menu item not found'') \<and>
      categoryDB (snd (updateMenuItem rt i w)) = categoryDB w \<and>
      menuItemDB (snd (updateMenuItem rt i w)) = menuItemDB w) \<and>
   (\<not> has (menuItemDB w) iid \<longrightarrow>
      fst (deleteMenuItem iid w) = Inl (Error ''Menu item not found'') \<and>
      categoryDB (snd (deleteMenuItem iid w)) = categoryDB w \<and>
      menuItemDB (snd (deleteMenuItem iid w)) = menuItemDB w)"
proof -
  have uc: "fst (updateCategory c w) = Inl (Error ''Category not found'') \<and>
      categoryDB (snd (updateCategory c w)) = categoryDB w \<and>
      menuItemDB (snd (updateCategory c w)) = menuItemDB w" if "\<not> has (categoryDB w) (cat_id c)"
    using that by (simp add: updateCategory_def Let_def lc_simps)
  have dc: "fst (deleteCategory cid w) = Inl (Error ''Category not found'') \<and>
      categoryDB (snd (deleteCategory cid w)) = categoryDB w \<and>
      menuItemDB (snd (deleteCategory cid w)) = menuItemDB w" if "\<not> has (categoryDB w) cid"
    using that by (simp add: deleteCategory_def Let_def lc_simps)
  have um: "fst (updateMenuItem rt i w) = Inl (Error ''Menu item not found'') \<and>
      categoryDB (snd (updateMenuItem rt i w)) = categoryDB w \<and>
      menuItemDB (snd (updateMenuItem rt i w)) = menuItemDB w"
    if "\<not> has (menuItemDB w) (item_id i)"
    using that by (simp add: updateMenuItem_def Let_def lc_simps)
  have dm: "fst (deleteMenuItem iid w) = Inl (Error ''Menu item not found'') \<and>
      categoryDB (snd (deleteMenuItem iid w)) = categoryDB w \<and>
      menuItemDB (snd (deleteMenuItem iid w)) = menuItemDB w" if "\<not> has (menuItemDB w) iid"
    using that by (simp add: deleteMenuItem_def Let_def lc_simps has_iff)
  from uc dc um dm show ?thesis by blast
qed

theorem not_found_leaves_stores_witness:
  "\<not> has (categoryDB (initialWorld ''2024'' 0)) ''cat-9'' \<and>
   \<not> has (menuItemDB (initialWorld ''2024'' 0)) ''item-9'' \<and>
   fst (updateCategory (initialCategory ''cat-9'' ''Soups'' [] 5) (initialWorld ''2024'' 0)) =
     Inl (Error ''Category not found'') \<and>
   fst (deleteCategory ''cat-9'' (initialWorld ''2024'' 0)) = Inl (Error ''Category not found'') \<and>
   fst (updateMenuItem exampleRuntime
          (initialItem ''2024'' ''item-9'' ''Soup'' [] 5 [] [] ''cat-1'' ''None'' 0 0)
          (initialWorld ''2024'' 0)) = Inl (Error ''Menu item not found'') \<and>
   fst (deleteMenuItem ''item-9'' (initialWorld ''2024'' 0)) = Inl (Error ''Menu item not found'') \<and>
   menuItemDB (snd (deleteMenuItem ''item-9'' (initialWorld ''2024'' 0))) =
     menuItemDB (initialWorld ''2024'' 0)"
proof -
  let ?w = "initialWorld ''2024'' 0"
  let ?c = "initialCategory ''cat-9'' ''Soups'' [] 5"
  let ?i = "initialItem ''2024'' ''item-9'' ''Soup'' [] 5 [] [] ''cat-1'' ''None'' 0 0"
  have hc: "\<not> has (categoryDB ?w) ''cat-9''"
  proof -
    have "''cat-9'' \<notin> set (map fst (categoryDB ?w))"
      unfolding initial_categoryDB by simp
    then show ?thesis by (simp add: has_iff)
  qed
  have hi: "\<not> has (menuItemDB ?w) ''item-9''"
  proof -
    have "map fst (menuItemDB ?w) =
            map fst (map (\<lambda>(k, i). (k, categoryId i)) (menuItemDB ?w))"
      by (simp add: split_def comp_def)
    then have "''item-9'' \<notin> set (map fst (menuItemDB ?w))"
      unfolding initial_menuItemDB by simp
    then show ?thesis by (simp add: has_iff)
  qed
  have ic: "cat_id ?c = ''cat-9''" by (simp add: initialCategory_def)
  have ii: "item_id ?i = ''item-9''" by (simp add: initialItem_def)
  from not_found_leaves_stores [of ?w ?c "''cat-9''" ?i exampleRuntime "''item-9''"] hc hi
  show ?thesis by (simp add: ic ii)
qed

section \<open>Decimal ids\<close>

lemma digit_char_inj: "a < 10 \<Longrightarrow> b < 10 \<Longrightarrow> digit_char a = digit_char b \<Longrightarrow> a = b"
proof -
  assume a: "a < 10" and b: "b < 10" and e: "digit_char a = digit_char b"
  have d: "distinct ''0123456789''" by simp
  from a b have "a < length ''0123456789''" "b < length ''0123456789''" by simp_all
  with d e show "a = b" unfolding digit_char_def by (simp add: nth_eq_iff_index_eq)
qed

lemma natToString_nonempty: "natToString n \<noteq> []"
  by (subst natToString.simps) simp

lemma natToString_inj: "natToString m = natToString n \<Longrightarrow> m = n"
proof (induction m arbitrary: n rule: natToString.induct)
  case (1 m)
  show ?case
  proof (cases "m < 10")
    case True
    then have m: "natToString m = [digit_char m]" by (subst natToString.simps) simp
    show ?thesis
    proof (cases "n < 10")
      case n: True
      then have "natToString n = [digit_char n]" by (subst natToString.simps) simp
      with m "1.prems" have "digit_char m = digit_char n" by simp
      with True n show ?thesis by (rule digit_char_inj)
    next
      case False
      then have "natToString n = natToString (n div 10) @ [digit_char (n mod 10)]"
        by (subst natToString.simps) simp
      with m "1.prems" have "natToString (n div 10) = []" by simp
      with natToString_nonempty show ?thesis by blast
    qed
  next
    case False
    then have m: "natToString m = natToString (m div 10) @ [digit_char (m mod 10)]"
      by (subst natToString.simps) simp
    show ?thesis
    proof (cases "n < 10")
      case True
      then have "natToString n = [digit_char n]" by (subst natToString.simps) simp
      with m "1.prems" have "natToString (m div 10) = []" by simp
      with natToString_nonempty show ?thesis by blast
    next
      case n: False
      then have "natToString n = natToString (n div 10) @ [digit_char (n mod 10)]"
        by (subst natToString.simps) simp
      with m "1.prems" have q: "natToString (m div 10) = natToString (n div 10)"
        and r: "digit_char (m mod 10) = digit_char (n mod 10)" by simp_all
      from "1.IH" [OF False q] have dv: "m div 10 = n div 10" .
      have "m mod 10 < 10" "n mod 10 < 10" by simp_all
      from this r have md: "m mod 10 = n mod 10" by (rule digit_char_inj)
      from dv md show ?thesis by (metis div_mult_mod_eq)
    qed
  qed
qed

section \<open>The upload loop\<close>

lemma with_cat_id_simps:
  "cat_id (with_cat_id d i) = i" "cat_name (with_cat_id d i) = cat_name d"
  by (simp_all add: with_cat_id_def MenuCategoryData.extend_def MenuCategory.fields_def)

lemma addCategory_eq:
  "addCategory d w =
     (Inr (with_cat_id d (''cat-'' @ natToString (now w))),
      w\<lparr>categoryDB := AList.update (''cat-'' @ natToString (now w))
                          (with_cat_id d (''cat-'' @ natToString (now w))) (categoryDB w),
        calls := calls w @ [AddCategory (with_cat_id d (''cat-'' @ natToString (now w)))],
        now := now w + 500\<rparr>)"
  by (simp add: addCategory_def Let_def resolveWithCopy_def simulateDelay_def logCall_def
        with_cat_id_simps)

lemma autoCategory_simps:
  "cat_id (autoCategory rt n cn k t) = ''cat-'' @ natToString t"
  "cat_name (autoCategory rt n cn k t) = String rt cn"
  by (simp_all add: autoCategory_def with_cat_id_simps)

lemma createCategory_eq:
  "createCategory rt n cn s w =
     (let c = autoCategory rt n cn (newCategoriesCreated s) (now w)
      in (Inr (cat_id c),
          s\<lparr>categoryNameToIdMap :=
                AList.update (toLowerCase rt (String rt cn)) (cat_id c) (categoryNameToIdMap s),
            newCategoriesCreated := newCategoriesCreated s + 1\<rparr>,
          w\<lparr>categoryDB := AList.update (cat_id c) c (categoryDB w),
            calls := calls w @ [AddCategory c],
            now := now w + 500\<rparr>))"
  by (simp add: createCategory_def addCategory_eq Let_def autoCategory_def with_cat_id_simps)

lemma resolveCategory_eq:
  "resolveCategory rt n cn s w =
     (if resolves (categoryNameToIdMap s) (toLowerCase rt (String rt cn))
      then (Inr (the (map_of (categoryNameToIdMap s) (toLowerCase rt (String rt cn)))), s, w)
      else createCategory rt n cn s w)"
  by (simp add: resolveCategory_def resolves_def split: option.splits)

text \<open>What one row does to the map, the store and the trace.\<close>

lemma uploadRow_known:
  assumes "rowKey rt row = None \<or> (\<exists>k. rowKey rt row = Some k \<and> resolves (categoryNameToIdMap s) k)"
  shows "snd (uploadRow rt n row (s, w)) = w \<and>
         categoryNameToIdMap (fst (uploadRow rt n row (s, w))) = categoryNameToIdMap s \<and>
         newCategoriesCreated (fst (uploadRow rt n row (s, w))) = newCategoriesCreated s"
  using assms
  by (auto simp: uploadRow_def rowKey_def Let_def skipRow_def resolveCategory_eq
           split: if_splits)

lemma uploadRow_new:
  assumes "rowKey rt row = Some k" and "\<not> resolves (categoryNameToIdMap s) k"
  shows "\<exists>c. cat_id c \<noteq> [] \<and> keyOf rt c = k \<and>
             snd (uploadRow rt n row (s, w)) =
               w\<lparr>categoryDB := AList.update (cat_id c) c (categoryDB w),
                 calls := calls w @ [AddCategory c], now := now w + 500\<rparr> \<and>
             categoryNameToIdMap (fst (uploadRow rt n row (s, w))) =
               AList.update k (cat_id c) (categoryNameToIdMap s) \<and>
             cat_id c = ''cat-'' @ natToString (now w)"
proof -
  let ?cn = "or_else (row ''Category Name'') (row ''category_name'')"
  let ?c = "autoCategory rt n ?cn (newCategoriesCreated s) (now w)"
  from assms(1) have t: "truthy ?cn" and k: "k = toLowerCase rt (String rt ?cn)"
    by (auto simp: rowKey_def Let_def split: if_splits)
  have "cat_id ?c \<noteq> []" "keyOf rt ?c = k" "cat_id ?c = ''cat-'' @ natToString (now w)"
    by (simp_all add: autoCategory_simps k keyOf_def)
  moreover have "snd (uploadRow rt n row (s, w)) =
               w\<lparr>categoryDB := AList.update (cat_id ?c) ?c (categoryDB w),
                 calls := calls w @ [AddCategory ?c], now := now w + 500\<rparr> \<and>
             categoryNameToIdMap (fst (uploadRow rt n row (s, w))) =
               AList.update k (cat_id ?c) (categoryNameToIdMap s)"
    using t assms(2) unfolding k
    by (simp add: uploadRow_def Let_def skipRow_def resolveCategory_eq createCategory_eq)
  ultimately show ?thesis by blast
qed

lemma resolves_update:
  "resolves (AList.update k' v m) k \<longleftrightarrow> (if k = k' then v \<noteq> [] else resolves m k)"
  by (simp add: resolves_def update_conv')

lemma uploadRow_step:
  obtains (same) "rowKey rt row = None \<or> (\<exists>k. rowKey rt row = Some k \<and> resolves (categoryNameToIdMap s) k)"
      "snd (uploadRow rt n row (s, w)) = w"
      "categoryNameToIdMap (fst (uploadRow rt n row (s, w))) = categoryNameToIdMap s"
  | (new) k c where "rowKey rt row = Some k" "\<not> resolves (categoryNameToIdMap s) k"
      "cat_id c \<noteq> []" "keyOf rt c = k"
      "snd (uploadRow rt n row (s, w)) =
         w\<lparr>categoryDB := AList.update (cat_id c) c (categoryDB w),
           calls := calls w @ [AddCategory c], now := now w + 500\<rparr>"
      "categoryNameToIdMap (fst (uploadRow rt n row (s, w))) =
         AList.update k (cat_id c) (categoryNameToIdMap s)"
      "cat_id c = ''cat-'' @ natToString (now w)"
proof (cases "rowKey rt row = None \<or> (\<exists>k. rowKey rt row = Some k \<and> resolves (categoryNameToIdMap s) k)")
  case True
  with uploadRow_known [OF True, of n w] same show ?thesis by blast
next
  case False
  then obtain k where k: "rowKey rt row = Some k" "\<not> resolves (categoryNameToIdMap s) k"
    by (cases "rowKey rt row") auto
  from uploadRow_new [OF k, of n w] k new show ?thesis by blast
qed

lemma uploadRow_resolves_after:
  assumes "rowKey rt row = Some k"
  shows "resolves (categoryNameToIdMap (fst (uploadRow rt n row (s, w)))) k"
proof (cases rule: uploadRow_step [of rt row s n w])
  case same
  with assms show ?thesis by auto
next
  case (new k' c)
  with assms show ?thesis by (simp add: resolves_update)
qed

lemma uploadRow_stable:
  assumes "resolves (categoryNameToIdMap s) k"
  shows "map_of (categoryNameToIdMap (fst (uploadRow rt n row (s, w)))) k =
         map_of (categoryNameToIdMap s) k"
proof (cases rule: uploadRow_step [of rt row s n w])
  case same
  then show ?thesis by simp
next
  case (new k' c)
  with assms have "k \<noteq> k'" by auto
  with new show ?thesis by (simp add: update_conv')
qed

lemma resolves_cong: "map_of m' k = map_of m k \<Longrightarrow> resolves m' k = resolves m k"
  by (simp add: resolves_def)

lemma uploadRows_stable:
  "resolves (categoryNameToIdMap s) k \<Longrightarrow>
   map_of (categoryNameToIdMap (fst (uploadRows rt n rows (s, w)))) k =
   map_of (categoryNameToIdMap s) k"
proof (induction rows arbitrary: s w)
  case Nil
  show ?case by simp
next
  case (Cons row rows)
  obtain s1 w1 where u: "uploadRow rt n row (s, w) = (s1, w1)" by (cases "uploadRow rt n row (s, w)")
  from uploadRow_stable [OF Cons.prems, of rt n row w] u
  have m: "map_of (categoryNameToIdMap s1) k = map_of (categoryNameToIdMap s) k" by simp
  from Cons.prems resolves_cong [OF m] have "resolves (categoryNameToIdMap s1) k" by simp
  from Cons.IH [OF this, of w1] m u show ?case by simp
qed

lemma rowItem_cong:
  assumes "\<And>k. rowKey rt row = Some k \<Longrightarrow> map_of m' k = map_of m k"
  shows "rowItem rt m' row = rowItem rt m row"
proof (cases "rowKey rt row")
  case None
  then show ?thesis by (simp add: rowItem_def)
next
  case (Some k)
  from assms [OF Some] have "map_of m' k = map_of m k" .
  with Some show ?thesis by (simp add: rowItem_def Let_def cong: if_cong)
qed

lemma resolves_the:
  "resolves m k \<Longrightarrow> (case map_of m k of None \<Rightarrow> [] | Some cid \<Rightarrow> cid) = the (map_of m k)"
  by (simp add: resolves_def split: option.splits)

lemma uploadRow_items:
  "newItems (fst (uploadRow rt n row (s, w))) =
     newItems s @
     (case rowItem rt (categoryNameToIdMap (fst (uploadRow rt n row (s, w)))) row of
        None \<Rightarrow> [] | Some i \<Rightarrow> [i]) \<and>
   successCount (fst (uploadRow rt n row (s, w))) =
     successCount s +
     (case rowItem rt (categoryNameToIdMap (fst (uploadRow rt n row (s, w)))) row of
        None \<Rightarrow> 0 | Some i \<Rightarrow> 1) \<and>
   errorCount (fst (uploadRow rt n row (s, w))) =
     errorCount s +
     (case rowItem rt (categoryNameToIdMap (fst (uploadRow rt n row (s, w)))) row of
        None \<Rightarrow> 1 | Some i \<Rightarrow> 0) \<and>
   length (errors (fst (uploadRow rt n row (s, w)))) =
     length (errors s) +
     (case rowItem rt (categoryNameToIdMap (fst (uploadRow rt n row (s, w)))) row of
        None \<Rightarrow> 1 | Some i \<Rightarrow> 0)"
proof (cases "rowKey rt row")
  case None
  then have "\<not> truthy (or_else (row ''Category Name'') (row ''category_name''))"
    by (simp add: rowKey_def Let_def split: if_splits)
  with None show ?thesis
    by (simp add: uploadRow_def Let_def skipRow_def rowItem_def)
next
  case (Some k)
  let ?cn = "or_else (row ''Category Name'') (row ''category_name'')"
  from Some have t: "truthy ?cn" and k: "toLowerCase rt (String rt ?cn) = k"
    by (auto simp: rowKey_def Let_def split: if_splits)
  show ?thesis
  proof (cases "resolves (categoryNameToIdMap s) k")
    case True
    with t k Some resolves_the [OF True] show ?thesis
      by (simp add: uploadRow_def Let_def skipRow_def rowItem_def resolveCategory_eq)
  next
    case False
    with t k Some show ?thesis
      by (simp add: uploadRow_def Let_def skipRow_def rowItem_def resolveCategory_eq
            createCategory_eq update_conv')
  qed
qed

lemma uploadRows_items:
  "newItems (fst (uploadRows rt n rows (s, w))) =
     newItems s @
     List.map_filter (rowItem rt (categoryNameToIdMap (fst (uploadRows rt n rows (s, w))))) rows \<and>
   successCount (fst (uploadRows rt n rows (s, w))) =
     successCount s +
     length (List.map_filter
               (rowItem rt (categoryNameToIdMap (fst (uploadRows rt n rows (s, w))))) rows) \<and>
   errorCount (fst (uploadRows rt n rows (s, w))) +
     length (List.map_filter
               (rowItem rt (categoryNameToIdMap (fst (uploadRows rt n rows (s, w))))) rows) =
     errorCount s + length rows \<and>
   length (errors (fst (uploadRows rt n rows (s, w)))) + errorCount s =
     length (errors s) + errorCount (fst (uploadRows rt n rows (s, w)))"
proof (induction rows arbitrary: s w)
  case Nil
  show ?case by simp
next
  case (Cons row rows)
  obtain s1 w1 where u: "uploadRow rt n row (s, w) = (s1, w1)"
    by (cases "uploadRow rt n row (s, w)")
  let ?f = "fst (uploadRows rt n rows (s1, w1))"
  have f: "fst (uploadRows rt n (row # rows) (s, w)) = ?f" by (simp add: u)
  have same: "rowItem rt (categoryNameToIdMap ?f) row = rowItem rt (categoryNameToIdMap s1) row"
  proof (rule rowItem_cong)
    fix k assume "rowKey rt row = Some k"
    from uploadRow_resolves_after [OF this, of n s w] u
    have "resolves (categoryNameToIdMap s1) k" by simp
    then show "map_of (categoryNameToIdMap ?f) k = map_of (categoryNameToIdMap s1) k"
      by (rule uploadRows_stable)
  qed
  from uploadRow_items [of rt n row s w] u
  have step: "newItems s1 = newItems s @
                (case rowItem rt (categoryNameToIdMap s1) row of None \<Rightarrow> [] | Some i \<Rightarrow> [i])"
    "successCount s1 = successCount s +
                (case rowItem rt (categoryNameToIdMap s1) row of None \<Rightarrow> 0 | Some i \<Rightarrow> 1)"
    "errorCount s1 = errorCount s +
                (case rowItem rt (categoryNameToIdMap s1) row of None \<Rightarrow> 1 | Some i \<Rightarrow> 0)"
    "length (errors s1) = length (errors s) +
                (case rowItem rt (categoryNameToIdMap s1) row of None \<Rightarrow> 1 | Some i \<Rightarrow> 0)"
    by simp_all
  from Cons.IH [of s1 w1] step show ?case
    unfolding f by (simp add: same split: option.splits)
qed

lemma created_map_AddCategory: "created (map AddCategory cs) = cs"
  by (induction cs) (simp_all add: created_def)

lemma uploadRows_key:
  "\<exists>cs. calls (snd (uploadRows rt n rows (s, w))) = calls w @ map AddCategory cs \<and>
        menuItemDB (snd (uploadRows rt n rows (s, w))) = menuItemDB w \<and>
        downloads (snd (uploadRows rt n rows (s, w))) = downloads w \<and>
        (if resolves (categoryNameToIdMap s) k \<or> Some k \<notin> rowKey rt ` set rows
         then k \<notin> keyOf rt ` set cs \<and>
              map_of (categoryNameToIdMap (fst (uploadRows rt n rows (s, w)))) k =
                map_of (categoryNameToIdMap s) k
         else \<exists>c. filter (\<lambda>c. keyOf rt c = k) cs = [c] \<and> cat_id c \<noteq> [] \<and>
                  map_of (categoryNameToIdMap (fst (uploadRows rt n rows (s, w)))) k =
                    Some (cat_id c))"
proof (induction rows arbitrary: s w)
  case Nil
  have "calls w = calls w @ map AddCategory []" by simp
  then show ?case by (intro exI [of _ "[]"]) simp
next
  case (Cons row rows)
  obtain s1 w1 where u: "uploadRow rt n row (s, w) = (s1, w1)"
    by (cases "uploadRow rt n row (s, w)")
  let ?r = "uploadRows rt n rows (s1, w1)"
  let ?M = "categoryNameToIdMap s" and ?M1 = "categoryNameToIdMap s1"
  let ?M' = "categoryNameToIdMap (fst ?r)"
  have r: "uploadRows rt n (row # rows) (s, w) = ?r" by (simp add: u)
  from Cons.IH [of s1 w1] obtain cs where
    c: "calls (snd ?r) = calls w1 @ map AddCategory cs"
    and fr: "menuItemDB (snd ?r) = menuItemDB w1" "downloads (snd ?r) = downloads w1"
    and ih: "if resolves ?M1 k \<or> Some k \<notin> rowKey rt ` set rows
             then k \<notin> keyOf rt ` set cs \<and> map_of ?M' k = map_of ?M1 k
             else \<exists>c. filter (\<lambda>c. keyOf rt c = k) cs = [c] \<and> cat_id c \<noteq> [] \<and>
                      map_of ?M' k = Some (cat_id c)"
    by blast
  show ?case
  proof (cases rule: uploadRow_step [of rt row s n w])
    case same
    with u have w1: "w1 = w" and m1: "?M1 = ?M" by simp_all
    from same(1) have nk: "\<not> resolves ?M k \<Longrightarrow> rowKey rt row \<noteq> Some k" by auto
    have "if resolves ?M k \<or> Some k \<notin> rowKey rt ` set (row # rows)
          then k \<notin> keyOf rt ` set cs \<and> map_of ?M' k = map_of ?M k
          else \<exists>c. filter (\<lambda>c. keyOf rt c = k) cs = [c] \<and> cat_id c \<noteq> [] \<and>
                   map_of ?M' k = Some (cat_id c)"
    proof (cases "resolves ?M k \<or> Some k \<notin> rowKey rt ` set (row # rows)")
      case True
      then have "resolves ?M1 k \<or> Some k \<notin> rowKey rt ` set rows" unfolding m1 by auto
      with ih True m1 show ?thesis by simp
    next
      case False
      with nk have "\<not> (resolves ?M1 k \<or> Some k \<notin> rowKey rt ` set rows)" unfolding m1 by force
      with ih False m1 show ?thesis by simp
    qed
    with c fr w1 show ?thesis unfolding r by blast
  next
    case (new k0 c0)
    with u have cw1: "calls w1 = calls w @ [AddCategory c0]"
      and fw1: "menuItemDB w1 = menuItemDB w" "downloads w1 = downloads w"
      and m1: "?M1 = AList.update k0 (cat_id c0) ?M" by simp_all
    have c': "calls (snd ?r) = calls w @ map AddCategory (c0 # cs)"
      using c cw1 by simp
    have "if resolves ?M k \<or> Some k \<notin> rowKey rt ` set (row # rows)
          then k \<notin> keyOf rt ` set (c0 # cs) \<and> map_of ?M' k = map_of ?M k
          else \<exists>c. filter (\<lambda>c. keyOf rt c = k) (c0 # cs) = [c] \<and> cat_id c \<noteq> [] \<and>
                   map_of ?M' k = Some (cat_id c)"
    proof (cases "k = k0")
      case True
      have res: "resolves ?M1 k" unfolding m1 True using new(3) by (simp add: resolves_update)
      with ih have nin: "k \<notin> keyOf rt ` set cs" and st: "map_of ?M' k = map_of ?M1 k" by simp_all
      from nin have "filter (\<lambda>c. keyOf rt c = k) cs = []" by (auto simp: filter_empty_conv)
      with new(4) True have fl: "filter (\<lambda>c. keyOf rt c = k) (c0 # cs) = [c0]" by simp
      have "map_of ?M' k = Some (cat_id c0)" using st m1 True by (simp add: update_conv')
      moreover have "\<not> (resolves ?M k \<or> Some k \<notin> rowKey rt ` set (row # rows))"
        using new(1,2) True by simp
      ultimately show ?thesis using fl new(3) by simp
    next
      case False
      have res: "resolves ?M1 k = resolves ?M k" unfolding m1 using False
        by (simp add: resolves_update)
      have mm: "map_of ?M1 k = map_of ?M k" unfolding m1 using False by (simp add: update_conv')
      have rk: "(Some k \<notin> rowKey rt ` set (row # rows)) = (Some k \<notin> rowKey rt ` set rows)"
        using new(1) False by auto
      have k0: "keyOf rt c0 \<noteq> k" using new(4) False by simp
      show ?thesis
      proof (cases "resolves ?M k \<or> Some k \<notin> rowKey rt ` set (row # rows)")
        case True
        with ih res rk mm k0 show ?thesis by auto
      next
        case nt: False
        with ih res rk obtain c where "filter (\<lambda>c. keyOf rt c = k) cs = [c]" "cat_id c \<noteq> []"
          "map_of ?M' k = Some (cat_id c)" by auto
        with nt k0 show ?thesis by auto
      qed
    qed
    with c' fr fw1 show ?thesis unfolding r by (intro exI [of _ "c0 # cs"]) simp
  qed
qed

lemma batchStep_frame:
  "calls (batchStep rt t p v) = calls v" "now (batchStep rt t p v) = now v"
  "categoryDB (batchStep rt t p v) = categoryDB v" "downloads (batchStep rt t p v) = downloads v"
  by (simp_all add: batchStep_def Let_def split_def)

lemma fold_batchStep_frame:
  "calls (fold (batchStep rt t) ps v) = calls v \<and> now (fold (batchStep rt t) ps v) = now v \<and>
   categoryDB (fold (batchStep rt t) ps v) = categoryDB v \<and>
   downloads (fold (batchStep rt t) ps v) = downloads v"
  by (induction ps arbitrary: v) (simp_all add: batchStep_frame)

lemma addMenuItemsBatch_result: "fst (addMenuItemsBatch rt xs v) = Inr (length xs)"
  by (simp add: addMenuItemsBatch_def Let_def)

lemma addMenuItemsBatch_calls:
  "calls (snd (addMenuItemsBatch rt xs v)) = calls v @ [AddMenuItemsBatch xs]"
  by (simp add: addMenuItemsBatch_def Let_def sd_simps fold_batchStep_frame lc_simps)

lemma handleExcelUpload_final:
  "final (fst (handleExcelUpload rt categories rows w)) =
   fst (uploadRows rt (length categories) rows (uploadStart rt categories, w))"
proof -
  obtain s w1 where u: "uploadRows rt (length categories) rows (uploadStart rt categories, w) = (s, w1)"
    by (cases "uploadRows rt (length categories) rows (uploadStart rt categories, w)")
  obtain r w2 where b: "addMenuItemsBatch rt (newItems s) w1 = (r, w2)"
    by (cases "addMenuItemsBatch rt (newItems s) w1")
  show ?thesis
    by (simp add: handleExcelUpload_def u b split: sum.splits)
qed

lemma handleExcelUpload_world:
  "snd (handleExcelUpload rt categories rows w) =
   (let (s, w1) = uploadRows rt (length categories) rows (uploadStart rt categories, w)
    in if newItems s \<noteq> [] then snd (addMenuItemsBatch rt (newItems s) w1) else w1)"
proof -
  obtain s w1 where u: "uploadRows rt (length categories) rows (uploadStart rt categories, w) = (s, w1)"
    by (cases "uploadRows rt (length categories) rows (uploadStart rt categories, w)")
  obtain r w2 where b: "addMenuItemsBatch rt (newItems s) w1 = (r, w2)"
    by (cases "addMenuItemsBatch rt (newItems s) w1")
  show ?thesis
    by (simp add: handleExcelUpload_def u b split: sum.splits)
qed

lemma callsSince_append: "calls w' = calls w @ ev \<Longrightarrow> callsSince w w' = ev"
  by (simp add: callsSince_def)

lemma created_append: "created (xs @ ys) = created xs @ created ys"
  by (simp add: created_def)

lemma batches_append: "batches (xs @ ys) = batches xs @ batches ys"
  by (simp add: batches_def)

lemma batches_map_AddCategory: "batches (map AddCategory cs) = []"
  by (induction cs) (simp_all add: batches_def)

text \<open>The calls of one upload: the categories it creates, then the batch, if any.\<close>

lemma handleExcelUpload_key:
  fixes rt categories rows w k
  defines "run \<equiv> handleExcelUpload rt categories rows w"
  defines "m0 \<equiv> categoryNameToIdMap (uploadStart rt categories)"
  shows "\<exists>cs. callsSince w (snd run) =
               map AddCategory cs @
               (if newItems (final (fst run)) = [] then []
                else [AddMenuItemsBatch (newItems (final (fst run)))]) \<and>
             (if resolves m0 k \<or> Some k \<notin> rowKey rt ` set rows
              then k \<notin> keyOf rt ` set cs \<and>
                   map_of (categoryNameToIdMap (final (fst run))) k = map_of m0 k
              else \<exists>c. filter (\<lambda>c. keyOf rt c = k) cs = [c] \<and> cat_id c \<noteq> [] \<and>
                       map_of (categoryNameToIdMap (final (fst run))) k = Some (cat_id c))"
proof -
  let ?u = "uploadRows rt (length categories) rows (uploadStart rt categories, w)"
  obtain s w1 where u: "?u = (s, w1)" by (cases ?u)
  have f: "final (fst run) = s" unfolding run_def handleExcelUpload_final u by simp
  have c: "calls (snd run) =
             calls w1 @ (if newItems s = [] then [] else [AddMenuItemsBatch (newItems s)])"
    unfolding run_def handleExcelUpload_world u by (simp add: addMenuItemsBatch_calls)
  note uk = uploadRows_key [of rt "length categories" rows "uploadStart rt categories" w k,
                unfolded u fst_conv snd_conv]
  then obtain cs where cs: "calls w1 = calls w @ map AddCategory cs"
    and k: "if resolves m0 k \<or> Some k \<notin> rowKey rt ` set rows
            then k \<notin> keyOf rt ` set cs \<and> map_of (categoryNameToIdMap s) k = map_of m0 k
            else \<exists>c. filter (\<lambda>c. keyOf rt c = k) cs = [c] \<and> cat_id c \<noteq> [] \<and>
                     map_of (categoryNameToIdMap s) k = Some (cat_id c)"
    unfolding m0_def by blast
  have "callsSince w (snd run) =
          map AddCategory cs @ (if newItems s = [] then [] else [AddMenuItemsBatch (newItems s)])"
    by (rule callsSince_append) (simp add: c cs)
  with k show ?thesis unfolding f by blast
qed

lemma created_upload_calls:
  "created (map AddCategory cs @ (if xs = [] then [] else [AddMenuItemsBatch xs])) = cs"
  by (simp add: created_append created_map_AddCategory) (simp add: created_def)

lemma uploadStart_map_keys:
  "fst ` set (fold (\<lambda>c m. AList.update (toLowerCase rt (cat_name c)) (cat_id c) m) categories m0) =
   keyOf rt ` set categories \<union> fst ` set m0"
  by (induction categories arbitrary: m0) (auto simp: dom_update keyOf_def)

lemma new_name_unresolved:
  "k \<notin> keyOf rt ` set categories \<Longrightarrow> \<not> resolves (categoryNameToIdMap (uploadStart rt categories)) k"
proof -
  assume "k \<notin> keyOf rt ` set categories"
  then have "k \<notin> fst ` set (categoryNameToIdMap (uploadStart rt categories))"
    by (simp add: uploadStart_def uploadStart_map_keys)
  then have "map_of (categoryNameToIdMap (uploadStart rt categories)) k = None"
    by (simp add: map_of_eq_None_iff)
  then show ?thesis by (simp add: resolves_def)
qed

lemma categoryId_excelItem: "categoryId (excelItem rt row cid p) = cid"
  by (simp add: excelItem_def)

lemma rowItem_categoryId:
  "rowKey rt row = Some k \<Longrightarrow> map_of m k = Some cid \<Longrightarrow> rowItem rt m row = Some item \<Longrightarrow>
   categoryId item = cid"
  by (auto simp: rowItem_def Let_def categoryId_excelItem split: if_splits)

section \<open>The batch call\<close>

lemma with_id_simps:
  "item_id (with_id d i c u) = i"
  by (simp add: with_id_def MenuItemData.extend_def MenuItem.fields_def)

lemma batchStep_store:
  "menuItemDB (batchStep rt t (i, x) v) =
     AList.update (''item-'' @ natToString (t + i))
       (with_id x (''item-'' @ natToString (t + i)) (toISOString rt (now v)) (toISOString rt (now v)))
       (menuItemDB v)"
  by (simp add: batchStep_def Let_def with_id_simps)

lemma fold_batchStep_other:
  "key \<notin> (\<lambda>i. ''item-'' @ natToString (t + i)) ` fst ` set ps \<Longrightarrow>
   map_of (menuItemDB (fold (batchStep rt t) ps v)) key = map_of (menuItemDB v) key"
proof (induction ps arbitrary: v)
  case Nil
  show ?case by simp
next
  case (Cons p ps)
  obtain i x where p: "p = (i, x)" by (cases p)
  from Cons.prems p have k: "key \<noteq> ''item-'' @ natToString (t + i)"
    and r: "key \<notin> (\<lambda>i. ''item-'' @ natToString (t + i)) ` fst ` set ps" by auto
  from Cons.IH [OF r, of "batchStep rt t p v"] k show ?case
    by (simp add: p batchStep_store update_conv')
qed

lemma fold_batchStep_entry:
  "distinct (map fst ps) \<Longrightarrow> (i, x) \<in> set ps \<Longrightarrow>
   map_of (menuItemDB (fold (batchStep rt t) ps v)) (''item-'' @ natToString (t + i)) =
     Some (with_id x (''item-'' @ natToString (t + i)) (toISOString rt (now v))
             (toISOString rt (now v)))"
proof (induction ps arbitrary: v)
  case Nil
  then show ?case by simp
next
  case (Cons p ps)
  obtain j y where p: "p = (j, y)" by (cases p)
  from Cons.prems(1) p have d: "distinct (map fst ps)" and j: "j \<notin> fst ` set ps" by auto
  show ?case
  proof (cases "(i, x) = p")
    case True
    with p have ij: "i = j" "x = y" by simp_all
    have "''item-'' @ natToString (t + i) \<notin> (\<lambda>i. ''item-'' @ natToString (t + i)) ` fst ` set ps"
    proof
      assume "''item-'' @ natToString (t + i) \<in> (\<lambda>i. ''item-'' @ natToString (t + i)) ` fst ` set ps"
      then obtain i' where i': "i' \<in> fst ` set ps" "natToString (t + i) = natToString (t + i')"
        by auto
      from natToString_inj [OF i'(2)] have "i = i'" by simp
      with i'(1) j ij show False by simp
    qed
    from fold_batchStep_other [OF this, of rt "batchStep rt t p v"] show ?thesis
      by (simp add: p ij batchStep_store update_conv')
  next
    case False
    with Cons.prems(2) have "(i, x) \<in> set ps" by simp
    from Cons.IH [OF d this, of "batchStep rt t p v"] show ?thesis
      by (simp add: batchStep_frame)
  qed
qed

lemma addMenuItemsBatch_adds:
  assumes "i < length xs"
  shows "map_of (menuItemDB (snd (addMenuItemsBatch rt xs v))) (''item-'' @ natToString (now v + i)) =
         Some (with_id (xs ! i) (''item-'' @ natToString (now v + i)) (toISOString rt (now v))
                 (toISOString rt (now v)))"
proof -
  have d: "distinct (map fst (zip [0 ..< length xs] xs))" by simp
  from assms have "(i, xs ! i) \<in> set (zip [0 ..< length xs] xs)"
    by (auto simp: set_zip intro!: exI [of _ i])
  from fold_batchStep_entry [OF d this, of rt "now v" "logCall (AddMenuItemsBatch xs) v"]
  show ?thesis
    by (simp add: addMenuItemsBatch_def Let_def sd_simps lc_simps)
qed

section \<open>Categories created by an upload\<close>

text \<open>
  The categories an upload creates get ids from a clock that moves on between two
  creations, so no creation overwrites an earlier one of the same run.
\<close>

lemma uploadRows_store:
  "\<exists>cs. calls (snd (uploadRows rt n rows (s, w))) = calls w @ map AddCategory cs \<and>
        now (snd (uploadRows rt n rows (s, w))) = now w + 500 * length cs \<and>
        (\<forall>c \<in> set cs. \<exists>t. now w \<le> t \<and> cat_id c = ''cat-'' @ natToString t) \<and>
        (\<forall>c \<in> set cs. map_of (categoryDB (snd (uploadRows rt n rows (s, w)))) (cat_id c) = Some c) \<and>
        (\<forall>key. key \<notin> cat_id ` set cs \<longrightarrow>
           map_of (categoryDB (snd (uploadRows rt n rows (s, w)))) key = map_of (categoryDB w) key)"
proof (induction rows arbitrary: s w)
  case Nil
  have "calls w = calls w @ map AddCategory []" by simp
  then show ?case by (intro exI [of _ "[]"]) simp
next
  case (Cons row rows)
  obtain s1 w1 where u: "uploadRow rt n row (s, w) = (s1, w1)"
    by (cases "uploadRow rt n row (s, w)")
  let ?r = "uploadRows rt n rows (s1, w1)"
  have r: "uploadRows rt n (row # rows) (s, w) = ?r" by (simp add: u)
  from Cons.IH [of s1 w1] obtain cs where
    c: "calls (snd ?r) = calls w1 @ map AddCategory cs"
    and t: "now (snd ?r) = now w1 + 500 * length cs"
    and ids: "\<forall>c \<in> set cs. \<exists>t. now w1 \<le> t \<and> cat_id c = ''cat-'' @ natToString t"
    and st: "\<forall>c \<in> set cs. map_of (categoryDB (snd ?r)) (cat_id c) = Some c"
    and ot: "\<forall>key. key \<notin> cat_id ` set cs \<longrightarrow>
               map_of (categoryDB (snd ?r)) key = map_of (categoryDB w1) key"
    by blast
  show ?case
  proof (cases rule: uploadRow_step [of rt row s n w])
    case same
    with u have "w1 = w" by simp
    with c t ids st ot show ?thesis unfolding r by blast
  next
    case (new k0 c0)
    with u have w1: "calls w1 = calls w @ [AddCategory c0]" "now w1 = now w + 500"
      "categoryDB w1 = AList.update (cat_id c0) c0 (categoryDB w)" by simp_all
    have c': "calls (snd ?r) = calls w @ map AddCategory (c0 # cs)" using c w1(1) by simp
    have t': "now (snd ?r) = now w + 500 * length (c0 # cs)" using t w1(2) by simp
    have ids': "\<forall>c \<in> set (c0 # cs). \<exists>t. now w \<le> t \<and> cat_id c = ''cat-'' @ natToString t"
    proof
      fix c assume "c \<in> set (c0 # cs)"
      then consider "c = c0" | "c \<in> set cs" by auto
      then show "\<exists>t. now w \<le> t \<and> cat_id c = ''cat-'' @ natToString t"
      proof cases
        case 1
        with new(7) show ?thesis by auto
      next
        case 2
        with ids obtain t where "now w1 \<le> t" "cat_id c = ''cat-'' @ natToString t" by blast
        with w1(2) have "now w \<le> t \<and> cat_id c = ''cat-'' @ natToString t" by simp
        then show ?thesis ..
      qed
    qed
    have fresh: "cat_id c0 \<notin> cat_id ` set cs"
    proof
      assume "cat_id c0 \<in> cat_id ` set cs"
      then obtain c where cc: "c \<in> set cs" "cat_id c = cat_id c0" by auto
      with ids obtain t where tt: "now w1 \<le> t" "cat_id c = ''cat-'' @ natToString t" by blast
      with cc(2) new(7) have "natToString t = natToString (now w)" by simp
      then have "t = now w" by (rule natToString_inj)
      with tt(1) w1(2) show False by simp
    qed
    have st': "\<forall>c \<in> set (c0 # cs). map_of (categoryDB (snd ?r)) (cat_id c) = Some c"
    proof
      fix c assume "c \<in> set (c0 # cs)"
      then consider (e) "c = c0" | (i) "c \<in> set cs" by auto
      then show "map_of (categoryDB (snd ?r)) (cat_id c) = Some c"
      proof cases
        case e
        from ot fresh have "map_of (categoryDB (snd ?r)) (cat_id c0) = map_of (categoryDB w1) (cat_id c0)"
          by blast
        with e show ?thesis by (simp add: w1(3) update_conv')
      next
        case i
        with st show ?thesis by blast
      qed
    qed
    have ot': "\<forall>key. key \<notin> cat_id ` set (c0 # cs) \<longrightarrow>
                 map_of (categoryDB (snd ?r)) key = map_of (categoryDB w) key"
    proof (intro allI impI)
      fix key assume k: "key \<notin> cat_id ` set (c0 # cs)"
      then have "key \<notin> cat_id ` set cs" "key \<noteq> cat_id c0" by auto
      with ot show "map_of (categoryDB (snd ?r)) key = map_of (categoryDB w) key"
        by (simp add: w1(3) update_conv')
    qed
    from c' t' ids' st' ot' show ?thesis unfolding r by blast
  qed
qed

lemma addMenuItemsBatch_categoryDB:
  "categoryDB (snd (addMenuItemsBatch rt xs v)) = categoryDB v"
  by (simp add: addMenuItemsBatch_def Let_def sd_simps fold_batchStep_frame lc_simps)

lemma upload_created_stored:
  assumes "c \<in> set (created (callsSince w (snd (handleExcelUpload rt categories rows w))))"
  shows "map_of (categoryDB (snd (handleExcelUpload rt categories rows w))) (cat_id c) = Some c"
proof -
  let ?u = "uploadRows rt (length categories) rows (uploadStart rt categories, w)"
  obtain s w1 where u: "?u = (s, w1)" by (cases ?u)
  from uploadRows_store [of rt "length categories" rows "uploadStart rt categories" w]
  obtain cs where cs: "calls w1 = calls w @ map AddCategory cs"
    and st: "\<forall>c \<in> set cs. map_of (categoryDB w1) (cat_id c) = Some c"
    unfolding u by auto
  have cw: "calls (snd (handleExcelUpload rt categories rows w)) =
             calls w1 @ (if newItems s = [] then [] else [AddMenuItemsBatch (newItems s)])"
    unfolding handleExcelUpload_world u by (simp add: addMenuItemsBatch_calls)
  have db: "categoryDB (snd (handleExcelUpload rt categories rows w)) = categoryDB w1"
    unfolding handleExcelUpload_world u by (simp add: addMenuItemsBatch_categoryDB)
  have "callsSince w (snd (handleExcelUpload rt categories rows w)) =
          map AddCategory cs @ (if newItems s = [] then [] else [AddMenuItemsBatch (newItems s)])"
    by (rule callsSince_append) (simp add: cw cs)
  then have "created (callsSince w (snd (handleExcelUpload rt categories rows w))) = cs"
    by (simp only: created_upload_calls)
  with assms st db show ?thesis by simp
qed

text \<open>
  Claim C1. Names are compared through \<open>toLowerCase\<close>, whatever letters it folds.
  In one upload, when some rows (two or more, or just one) name a category whose
  lower-cased name \<open>k\<close> no category of the page has, the run makes exactly one
  category with that lower-cased name, that category is in the category store
  afterwards, and every item made from a row that names it carries that category's
  id. The items collected are exactly the items of the rows, in order, with the
  category ids the map holds at the end.
\<close>

theorem new_category_created_once:
  assumes "k \<notin> keyOf rt ` set categories" and "Some k \<in> rowKey rt ` set rows"
  shows "\<exists>c. filter (\<lambda>c. keyOf rt c = k)
               (created (callsSince w (snd (handleExcelUpload rt categories rows w)))) = [c] \<and>
             (\<forall>row \<in> set rows. rowKey rt row = Some k \<longrightarrow>
                (\<forall>item. rowItem rt
                          (categoryNameToIdMap (final (fst (handleExcelUpload rt categories rows w))))
                          row = Some item \<longrightarrow>
                        categoryId item = cat_id c)) \<and>
             map_of (categoryDB (snd (handleExcelUpload rt categories rows w))) (cat_id c) = Some c \<and>
             newItems (final (fst (handleExcelUpload rt categories rows w))) =
               List.map_filter
                 (rowItem rt
                    (categoryNameToIdMap (final (fst (handleExcelUpload rt categories rows w)))))
                 rows"
proof -
  let ?run = "handleExcelUpload rt categories rows w"
  let ?M = "categoryNameToIdMap (final (fst ?run))"
  from new_name_unresolved [OF assms(1)] assms(2)
  have n: "\<not> (resolves (categoryNameToIdMap (uploadStart rt categories)) k \<or>
              Some k \<notin> rowKey rt ` set rows)" by simp
  from handleExcelUpload_key [of w rt categories rows k] n
  obtain cs c where cs: "callsSince w (snd ?run) =
               map AddCategory cs @
               (if newItems (final (fst ?run)) = [] then []
                else [AddMenuItemsBatch (newItems (final (fst ?run)))])"
    and c: "filter (\<lambda>c. keyOf rt c = k) cs = [c]" "map_of ?M k = Some (cat_id c)"
    by auto
  have 1: "filter (\<lambda>c. keyOf rt c = k) (created (callsSince w (snd ?run))) = [c]"
    unfolding cs created_upload_calls by (rule c(1))
  have 2: "categoryId item = cat_id c"
    if "rowKey rt row = Some k" "rowItem rt ?M row = Some item" for row item
    by (rule rowItem_categoryId [OF that(1) c(2) that(2)])
  have 3: "newItems (final (fst ?run)) = List.map_filter (rowItem rt ?M) rows"
    using uploadRows_items [of rt "length categories" rows "uploadStart rt categories" w]
    unfolding handleExcelUpload_final by (simp add: uploadStart_def)
  from 1 have "c \<in> set (filter (\<lambda>c. keyOf rt c = k) (created (callsSince w (snd ?run))))" by simp
  then have "c \<in> set (created (callsSince w (snd ?run)))" by simp
  then have 4: "map_of (categoryDB (snd ?run)) (cat_id c) = Some c"
    by (rule upload_created_stored)
  from 1 2 3 4 show ?thesis by blast
qed

lemma keyOf_initialCategories:
  "map (keyOf exampleRuntime) initialCategoriesData = [''appetizers'', ''main course'', ''desserts'', ''beverages'']"
  by (simp add: initialCategoriesData_def initialCategory_def keyOf_def exampleRuntime_def
        toLowerCase_ascii_def lower_ascii_def)

lemma rowKey_examples:
  "rowKey exampleRuntime colaRow = Some ''drinks''"
  "rowKey exampleRuntime teaRow = Some ''drinks''"
  "rowKey exampleRuntime freeRow = Some ''beverages''"
  "rowKey exampleRuntime negativeRow = Some ''beverages''"
  "rowKey exampleRuntime wordRow = Some ''appetizers''"
  "rowKey exampleRuntime unpricedRow = Some ''appetizers''"
  by (simp_all add: rowKey_def colaRow_def teaRow_def freeRow_def negativeRow_def wordRow_def
        unpricedRow_def rowOf_def or_else_def exampleRuntime_def toLowerCase_ascii_def
        lower_ascii_def)

theorem new_category_created_once_witness:
  "''drinks'' \<notin> keyOf exampleRuntime ` set initialCategoriesData \<and>
   Some ''drinks'' \<in> rowKey exampleRuntime ` set [colaRow, teaRow] \<and>
   (\<exists>c. filter (\<lambda>c. keyOf exampleRuntime c = ''drinks'')
          (created (callsSince page0
             (snd (handleExcelUpload exampleRuntime initialCategoriesData [colaRow, teaRow] page0)))) =
        [c] \<and>
        (\<forall>row \<in> set [colaRow, teaRow]. rowKey exampleRuntime row = Some ''drinks'' \<longrightarrow>
           (\<forall>item. rowItem exampleRuntime
                     (categoryNameToIdMap (final (fst
                        (handleExcelUpload exampleRuntime initialCategoriesData [colaRow, teaRow]
                           page0))))
                     row = Some item \<longrightarrow>
                   categoryId item = cat_id c)) \<and>
        map_of (categoryDB
                  (snd (handleExcelUpload exampleRuntime initialCategoriesData [colaRow, teaRow] page0)))
          (cat_id c) = Some c)"
proof -
  have "''drinks'' \<notin> set (map (keyOf exampleRuntime) initialCategoriesData)"
    unfolding keyOf_initialCategories by simp
  then have h1: "''drinks'' \<notin> keyOf exampleRuntime ` set initialCategoriesData" by simp
  have h2: "Some ''drinks'' \<in> rowKey exampleRuntime ` set [colaRow, teaRow]"
    by (simp add: rowKey_examples)
  from new_category_created_once [OF h1 h2, of page0]
  obtain c where
    "filter (\<lambda>c. keyOf exampleRuntime c = ''drinks'')
          (created (callsSince page0
             (snd (handleExcelUpload exampleRuntime initialCategoriesData [colaRow, teaRow] page0)))) =
        [c] \<and>
        (\<forall>row \<in> set [colaRow, teaRow]. rowKey exampleRuntime row = Some ''drinks'' \<longrightarrow>
           (\<forall>item. rowItem exampleRuntime
                     (categoryNameToIdMap (final (fst
                        (handleExcelUpload exampleRuntime initialCategoriesData [colaRow, teaRow]
                           page0))))
                     row = Some item \<longrightarrow>
                   categoryId item = cat_id c)) \<and>
        map_of (categoryDB
                  (snd (handleExcelUpload exampleRuntime initialCategoriesData [colaRow, teaRow] page0)))
          (cat_id c) = Some c"
    by (elim exE conjE) (rule that, intro conjI)
  with h1 h2 show ?thesis by (intro conjI exI [of _ c]) (elim conjE; assumption)+
qed

section \<open>What an upload reports and submits\<close>

lemma upload_newItems:
  "newItems (final (fst (handleExcelUpload rt categories rows w))) =
     List.map_filter
       (rowItem rt (categoryNameToIdMap (final (fst (handleExcelUpload rt categories rows w)))))
       rows"
  using uploadRows_items [of rt "length categories" rows "uploadStart rt categories" w]
  unfolding handleExcelUpload_final by (simp add: uploadStart_def)

lemma upload_counts:
  "successCount (final (fst (handleExcelUpload rt categories rows w))) +
     errorCount (final (fst (handleExcelUpload rt categories rows w))) = length rows \<and>
   length (errors (final (fst (handleExcelUpload rt categories rows w)))) =
     errorCount (final (fst (handleExcelUpload rt categories rows w))) \<and>
   length (newItems (final (fst (handleExcelUpload rt categories rows w)))) =
     successCount (final (fst (handleExcelUpload rt categories rows w)))"
  using uploadRows_items [of rt "length categories" rows "uploadStart rt categories" w]
  unfolding handleExcelUpload_final by (simp add: uploadStart_def)

lemma upload_calls:
  "\<exists>cs. callsSince w (snd (handleExcelUpload rt categories rows w)) =
          map AddCategory cs @
          (if newItems (final (fst (handleExcelUpload rt categories rows w))) = [] then []
           else [AddMenuItemsBatch (newItems (final (fst (handleExcelUpload rt categories rows w))))])"
  using handleExcelUpload_key [of w rt categories rows "[]"] by blast

lemma upload_batches:
  "batches (callsSince w (snd (handleExcelUpload rt categories rows w))) =
     (if newItems (final (fst (handleExcelUpload rt categories rows w))) = [] then []
      else [newItems (final (fst (handleExcelUpload rt categories rows w)))])"
proof -
  from upload_calls [of w rt categories rows] obtain cs where
    "callsSince w (snd (handleExcelUpload rt categories rows w)) =
          map AddCategory cs @
          (if newItems (final (fst (handleExcelUpload rt categories rows w))) = [] then []
           else [AddMenuItemsBatch (newItems (final (fst (handleExcelUpload rt categories rows w))))])"
    ..
  then show ?thesis
    by (simp add: batches_append batches_map_AddCategory) (simp add: batches_def)
qed

lemma upload_store:
  "if newItems (final (fst (handleExcelUpload rt categories rows w))) = []
   then menuItemDB (snd (handleExcelUpload rt categories rows w)) = menuItemDB w
   else \<exists>v. menuItemDB v = menuItemDB w \<and>
            snd (handleExcelUpload rt categories rows w) =
              snd (addMenuItemsBatch rt
                     (newItems (final (fst (handleExcelUpload rt categories rows w)))) v)"
proof -
  let ?u = "uploadRows rt (length categories) rows (uploadStart rt categories, w)"
  obtain s w1 where u: "?u = (s, w1)" by (cases ?u)
  have f: "final (fst (handleExcelUpload rt categories rows w)) = s"
    unfolding handleExcelUpload_final u by simp
  from uploadRows_key [of rt "length categories" rows "uploadStart rt categories" w "[]"]
  have m: "menuItemDB w1 = menuItemDB w" unfolding u by auto
  show ?thesis
  proof (cases "newItems s = []")
    case True
    then show ?thesis unfolding f handleExcelUpload_world u using m by simp
  next
    case False
    have "snd (handleExcelUpload rt categories rows w) = snd (addMenuItemsBatch rt (newItems s) w1)"
      unfolding handleExcelUpload_world u using False by simp
    with m False show ?thesis unfolding f by auto
  qed
qed

text \<open>
  Claim C7, as the code has it. The items an upload collects are exactly the items
  of its rows, one for every row that passes the checks, in the order of the rows
  (each with the category id the name-to-id map holds for its category). The calls
  of one upload are the category creations, then, only when at least one row gave
  an item, one \<open>addMenuItemsBatch\<close> call with all the collected items; with no item
  collected no batch call is made and the item store is left alone. The rows do not
  touch the item store before that call. The batch call puts every submitted item
  into the item store, under the id made from the clock and the item's index, and
  returns the number of items submitted.
\<close>

theorem upload_submits_one_batch:
  "newItems (final (fst (handleExcelUpload rt categories rows w))) =
     List.map_filter
       (rowItem rt (categoryNameToIdMap (final (fst (handleExcelUpload rt categories rows w)))))
       rows \<and>
   (\<exists>cs. callsSince w (snd (handleExcelUpload rt categories rows w)) =
          map AddCategory cs @
          (if newItems (final (fst (handleExcelUpload rt categories rows w))) = [] then []
           else [AddMenuItemsBatch (newItems (final (fst (handleExcelUpload rt categories rows w))))])) \<and>
   batches (callsSince w (snd (handleExcelUpload rt categories rows w))) =
     (if newItems (final (fst (handleExcelUpload rt categories rows w))) = [] then []
      else [newItems (final (fst (handleExcelUpload rt categories rows w)))]) \<and>
   (if newItems (final (fst (handleExcelUpload rt categories rows w))) = []
    then menuItemDB (snd (handleExcelUpload rt categories rows w)) = menuItemDB w
    else \<exists>v. menuItemDB v = menuItemDB w \<and>
             snd (handleExcelUpload rt categories rows w) =
               snd (addMenuItemsBatch rt
                      (newItems (final (fst (handleExcelUpload rt categories rows w)))) v)) \<and>
   fst (addMenuItemsBatch rt xs v) = Inr (length xs) \<and>
   (\<forall>i < length xs.
      map_of (menuItemDB (snd (addMenuItemsBatch rt xs v))) (''item-'' @ natToString (now v + i)) =
        Some (with_id (xs ! i) (''item-'' @ natToString (now v + i)) (toISOString rt (now v))
                (toISOString rt (now v))))"
  using upload_newItems [of rt categories rows w]
    upload_calls [of w rt categories rows] upload_batches [of w rt categories rows]
    upload_store [of rt categories rows w] addMenuItemsBatch_result [of rt xs v]
    addMenuItemsBatch_adds [of _ xs rt v]
  by (intro conjI allI impI) assumption+

lemma name_excelItem: "name (excelItem rt row cid p) = String_or rt (row ''Name'') []"
  by (simp add: excelItem_def)

lemma rowItem_examples:
  "rowItem exampleRuntime m colaRow \<noteq> None"
  "rowItem exampleRuntime m unpricedRow = None"
  "rowItem exampleRuntime m freeRow = None"
  "rowItem exampleRuntime m negativeRow = None"
  "rowItem exampleRuntime m wordRow = None"
  by (simp_all add: rowItem_def rowKey_examples Let_def name_excelItem String_or_def or_else_def)
     (simp_all add: colaRow_def unpricedRow_def freeRow_def negativeRow_def wordRow_def rowOf_def
        exampleRuntime_def parseFloat_dec_def takeSign_def isSpace_ascii_def isDigit_def digit_of_def
        digitsValue_def)

lemma rowItem_names:
  "map_option name (rowItem exampleRuntime m colaRow) = Some ''Cola''"
  "map_option name (rowItem exampleRuntime m teaRow) = Some ''Tea''"
  by (simp_all add: rowItem_def rowKey_examples Let_def name_excelItem String_or_def or_else_def)
     (simp_all add: colaRow_def teaRow_def rowOf_def
        exampleRuntime_def parseFloat_dec_def takeSign_def isSpace_ascii_def isDigit_def digit_of_def
        digitsValue_def)

lemma natToString_0: "natToString 0 = ''0''"
  by (simp add: natToString.simps digit_char_def)

theorem upload_submits_one_batch_witness:
  "map name (newItems (final (fst
      (handleExcelUpload exampleRuntime initialCategoriesData [colaRow, unpricedRow, teaRow] page0)))) =
     [''Cola'', ''Tea''] \<and>
   batches (callsSince page0
      (snd (handleExcelUpload exampleRuntime initialCategoriesData [colaRow, unpricedRow, teaRow]
              page0))) =
     [newItems (final (fst
        (handleExcelUpload exampleRuntime initialCategoriesData [colaRow, unpricedRow, teaRow]
           page0)))] \<and>
   (0::nat) < length [excelItem exampleRuntime colaRow ''cat-4'' (Num 2)] \<and>
   map_of (menuItemDB (snd (addMenuItemsBatch exampleRuntime
             [excelItem exampleRuntime colaRow ''cat-4'' (Num 2)] page0))) ''item-0'' =
     Some (with_id (excelItem exampleRuntime colaRow ''cat-4'' (Num 2)) ''item-0''
             (toISOString exampleRuntime 0) (toISOString exampleRuntime 0))"
proof -
  let ?rows = "[colaRow, unpricedRow, teaRow]"
  let ?run = "handleExcelUpload exampleRuntime initialCategoriesData ?rows page0"
  let ?M = "categoryNameToIdMap (final (fst ?run))"
  let ?xs = "[excelItem exampleRuntime colaRow ''cat-4'' (Num 2)]"
  have t0: "now page0 = 0" by (simp add: page0_def initialWorld_def)
  note t = upload_submits_one_batch [of exampleRuntime initialCategoriesData ?rows page0 ?xs page0]
  from t have i: "newItems (final (fst ?run)) = List.map_filter (rowItem exampleRuntime ?M) ?rows"
    by (elim conjE)
  obtain x y where x: "rowItem exampleRuntime ?M colaRow = Some x" "name x = ''Cola''"
    and y: "rowItem exampleRuntime ?M teaRow = Some y" "name y = ''Tea''"
    using rowItem_names [of ?M] by auto
  have i': "newItems (final (fst ?run)) = [x, y]"
    unfolding i by (simp add: List.map_filter_simps x(1) y(1) rowItem_examples(2))
  then have n: "map name (newItems (final (fst ?run))) = [''Cola'', ''Tea'']"
    by (simp add: x(2) y(2))
  from t have b: "batches (callsSince page0 (snd ?run)) =
     (if newItems (final (fst ?run)) = [] then [] else [newItems (final (fst ?run))])"
    by (elim conjE)
  from i' have b': "batches (callsSince page0 (snd ?run)) = [newItems (final (fst ?run))]"
    unfolding b by simp
  from t have a: "\<forall>i < length ?xs.
      map_of (menuItemDB (snd (addMenuItemsBatch exampleRuntime ?xs page0)))
        (''item-'' @ natToString (now page0 + i)) =
        Some (with_id (?xs ! i) (''item-'' @ natToString (now page0 + i))
                (toISOString exampleRuntime (now page0)) (toISOString exampleRuntime (now page0)))"
    by (elim conjE)
  from a have "map_of (menuItemDB (snd (addMenuItemsBatch exampleRuntime ?xs page0)))
        (''item-'' @ natToString (now page0 + 0)) =
        Some (with_id (?xs ! 0) (''item-'' @ natToString (now page0 + 0))
                (toISOString exampleRuntime (now page0)) (toISOString exampleRuntime (now page0)))"
    by simp
  then have a0: "map_of (menuItemDB (snd (addMenuItemsBatch exampleRuntime ?xs page0))) ''item-0'' =
     Some (with_id (excelItem exampleRuntime colaRow ''cat-4'' (Num 2)) ''item-0''
             (toISOString exampleRuntime 0) (toISOString exampleRuntime 0))"
    by (simp add: t0 natToString_0)
  from n b' a0 show ?thesis by simp
qed

theorem upload_without_batch_counterexample:
  "batches (callsSince page0
      (snd (handleExcelUpload exampleRuntime initialCategoriesData [unpricedRow] page0))) = [] \<and>
   errorCount (final (fst (handleExcelUpload exampleRuntime initialCategoriesData [unpricedRow] page0))) = 1"
proof -
  let ?run = "handleExcelUpload exampleRuntime initialCategoriesData [unpricedRow] page0"
  have n: "newItems (final (fst ?run)) = []"
    unfolding upload_newItems by (simp add: rowItem_examples)
  have "batches (callsSince page0 (snd ?run)) = []"
    unfolding upload_batches using n by simp
  moreover have "errorCount (final (fst ?run)) = 1"
    using upload_counts [of exampleRuntime initialCategoriesData "[unpricedRow]" page0] n by simp
  ultimately show ?thesis by simp
qed

section \<open>The CSV importer\<close>




lemma createMenuItemFromCSV_item:
  assumes "getValue rt values headers ''Name'' = Str a" "getValue rt values headers ''Description'' = Str b"
    and "stripQuotes a \<noteq> []" "stripQuotes b \<noteq> []"
  shows "\<exists>item. createMenuItemFromCSV rt t rid1 rid2 values headers = Inr (Some item) \<and>
           name item = stripQuotes a \<and> description item = stripQuotes b \<and>
           price item =
             (if truthy_number (parseFloat_cell rt (getValue rt values headers ''Price''))
              then parseFloat_cell rt (getValue rt values headers ''Price'') else Num 0) \<and>
           availabilityFlag item = (getValue rt values headers ''Availability Flag'' = Str ''true'') \<and>
           soldOut item = (getValue rt values headers ''Sold Out'' = Str ''true'') \<and>
           bogo item = (getValue rt values headers ''BOGO'' = Str ''true'')"
  using assms by (simp add: createMenuItemFromCSV_def Let_def)





section \<open>Counting rows\<close>

lemma uploadRow_message:
  "errors (fst (uploadRow rt n row (s, w))) =
     errors s @ (case rowMessage rt row of None \<Rightarrow> [] | Some m \<Rightarrow> [m])"
  by (simp add: uploadRow_def Let_def skipRow_def resolveCategory_eq createCategory_eq
        rowMessage_def name_excelItem)


















section \<open>Prices and flags\<close>

lemma spellsTrue_iff:
  "spellsTrue s \<longleftrightarrow>
     (\<exists>a b c d. s = [a, b, c, d] \<and> a \<in> {CHR ''t'', CHR ''T''} \<and> b \<in> {CHR ''r'', CHR ''R''} \<and>
                c \<in> {CHR ''u'', CHR ''U''} \<and> d \<in> {CHR ''e'', CHR ''E''})"
proof
  assume "spellsTrue s"
  then obtain a s1 where 1: "s = a # s1" "a \<in> set ''tT''"
      "list_all2 (\<lambda>c cases. c \<in> set cases) s1 [''rR'', ''uU'', ''eE'']"
    unfolding spellsTrue_def list_all2_Cons2 [of _ s] by blast
  from 1(3) obtain b s2 where 2: "s1 = b # s2" "b \<in> set ''rR''"
      "list_all2 (\<lambda>c cases. c \<in> set cases) s2 [''uU'', ''eE'']"
    unfolding list_all2_Cons2 [of _ s1] by blast
  from 2(3) obtain c s3 where 3: "s2 = c # s3" "c \<in> set ''uU''"
      "list_all2 (\<lambda>c cases. c \<in> set cases) s3 [''eE'']"
    unfolding list_all2_Cons2 [of _ s2] by blast
  from 3(3) obtain d where 4: "s3 = [d]" "d \<in> set ''eE''"
    unfolding list_all2_Cons2 [of _ s3] by auto
  from 1(2) 2(2) 3(2) 4(2) have "a \<in> {CHR ''t'', CHR ''T''}" "b \<in> {CHR ''r'', CHR ''R''}"
    "c \<in> {CHR ''u'', CHR ''U''}" "d \<in> {CHR ''e'', CHR ''E''}" by simp_all
  moreover have "s = [a, b, c, d]" by (simp add: 1(1) 2(1) 3(1) 4(1))
  ultimately show "\<exists>a b c d. s = [a, b, c, d] \<and> a \<in> {CHR ''t'', CHR ''T''} \<and>
     b \<in> {CHR ''r'', CHR ''R''} \<and> c \<in> {CHR ''u'', CHR ''U''} \<and> d \<in> {CHR ''e'', CHR ''E''}"
    by (intro exI conjI)
next
  assume "\<exists>a b c d. s = [a, b, c, d] \<and> a \<in> {CHR ''t'', CHR ''T''} \<and>
     b \<in> {CHR ''r'', CHR ''R''} \<and> c \<in> {CHR ''u'', CHR ''U''} \<and> d \<in> {CHR ''e'', CHR ''E''}"
  then obtain a b c d where "s = [a, b, c, d]" "a \<in> {CHR ''t'', CHR ''T''}"
     "b \<in> {CHR ''r'', CHR ''R''}" "c \<in> {CHR ''u'', CHR ''U''}" "d \<in> {CHR ''e'', CHR ''E''}"
    by (elim exE conjE)
  then show "spellsTrue s" by (simp add: spellsTrue_def)
qed

lemma spellsTrue_start: "spellsTrue (c # cs) \<Longrightarrow> c = CHR ''t'' \<or> c = CHR ''T''"
  by (simp add: spellsTrue_def)

lemma spellsTrue_words:
  "\<not> spellsTrue []" "\<not> spellsTrue ''undefined''" "\<not> spellsTrue ''false''" "spellsTrue ''true''"
  by (simp_all add: spellsTrue_def)

lemma flags_excelItem:
  "availabilityFlag (excelItem rt row cid p) = isTrueCell rt (row ''Available'')"
  "soldOut (excelItem rt row cid p) = isTrueCell rt (row ''Sold Out'')"
  "bogo (excelItem rt row cid p) = isTrueCell rt (row ''BOGO'')"
  by (simp_all add: excelItem_def)

lemma isTrueCell_number:
  assumes "foldsTrue rt" "printsNumbers rt"
  shows "\<not> isTrueCell rt (Number n)"
proof
  assume "isTrueCell rt (Number n)"
  with assms(1) have s: "spellsTrue (numberToString rt n)"
    by (simp add: isTrueCell_def foldsTrue_def)
  from assms(2) have "case numberToString rt n of [] \<Rightarrow> False | c # cs \<Rightarrow> c \<in> set ''0123456789-NI''"
    unfolding printsNumbers_def ..
  then obtain c cs where n: "numberToString rt n = c # cs" and c: "c \<in> set ''0123456789-NI''"
    by (cases "numberToString rt n") simp_all
  from s n have "c = CHR ''t'' \<or> c = CHR ''T''" by (simp add: spellsTrue_start)
  with c show False by auto
qed

lemma isTrueCell_cases:
  assumes "foldsTrue rt" "printsNumbers rt"
  shows "isTrueCell rt c \<longleftrightarrow> c = Boolean True \<or> (\<exists>s. c = Str s \<and> spellsTrue s)"
proof (cases c)
  case Undefined
  with assms(1) show ?thesis by (simp add: isTrueCell_def foldsTrue_def spellsTrue_words)
next
  case (Str s)
  with assms(1) show ?thesis by (simp add: isTrueCell_def foldsTrue_def)
next
  case (Number n)
  with isTrueCell_number [OF assms] show ?thesis by simp
next
  case (Boolean b)
  with assms(1) show ?thesis by (simp add: isTrueCell_def foldsTrue_def spellsTrue_words)
qed

lemma csv_flags:
  assumes "getValue rt values headers ''Name'' = Str x"
    "getValue rt values headers ''Description'' = Str y"
    "stripQuotes x \<noteq> []" "stripQuotes y \<noteq> []"
  shows "itemFlags (createMenuItemFromCSV rt t rid1 rid2 values headers) =
      Some (getValue rt values headers ''Availability Flag'' = Str ''true'',
            getValue rt values headers ''Sold Out'' = Str ''true'',
            getValue rt values headers ''BOGO'' = Str ''true'')"
proof -
  from createMenuItemFromCSV_item [OF assms, of t rid1 rid2] obtain item where
    "createMenuItemFromCSV rt t rid1 rid2 values headers = Inr (Some item)"
    "availabilityFlag item = (getValue rt values headers ''Availability Flag'' = Str ''true'')"
    "soldOut item = (getValue rt values headers ''Sold Out'' = Str ''true'')"
    "bogo item = (getValue rt values headers ''BOGO'' = Str ''true'')" by blast
  then show ?thesis by (simp add: itemFlags_def)
qed

text \<open>
  Claim C6, as the code has it. In a spreadsheet upload the three flags of the item
  are read from the cells "Available", "Sold Out" and "BOGO" by comparing the
  lower-cased string of the cell with "true". With a \<open>toLowerCase\<close> that gives
  "true" for the sixteen spellings of it only, and numbers printed as JavaScript
  prints them, a cell is true exactly when it is a string that spells "true" in any
  mix of cases or the boolean \<open>true\<close>; every other cell is false: a missing or empty
  cell, any other string, the boolean \<open>false\<close>, every number. The CSV importer
  compares the value under "Availability Flag", "Sold Out" and "BOGO" with "true"
  as it is written, without folding the case.
\<close>

theorem flags_parsed:
  "availabilityFlag (excelItem rt row cid p) = isTrueCell rt (row ''Available'') \<and>
   soldOut (excelItem rt row cid p) = isTrueCell rt (row ''Sold Out'') \<and>
   bogo (excelItem rt row cid p) = isTrueCell rt (row ''BOGO'') \<and>
   isTrueCell rt c = (toLowerCase rt (String rt c) = ''true'') \<and>
   (foldsTrue rt \<and> printsNumbers rt \<longrightarrow>
      (isTrueCell rt c \<longleftrightarrow> c = Boolean True \<or> (\<exists>s. c = Str s \<and> spellsTrue s)) \<and>
      \<not> isTrueCell rt Undefined \<and> \<not> isTrueCell rt (Str []) \<and> \<not> isTrueCell rt (Boolean False) \<and>
      \<not> isTrueCell rt (Number n)) \<and>
   (getValue rt values headers ''Name'' = Str x \<and> getValue rt values headers ''Description'' = Str y \<and>
    stripQuotes x \<noteq> [] \<and> stripQuotes y \<noteq> [] \<longrightarrow>
    itemFlags (createMenuItemFromCSV rt t rid1 rid2 values headers) =
      Some (getValue rt values headers ''Availability Flag'' = Str ''true'',
            getValue rt values headers ''Sold Out'' = Str ''true'',
            getValue rt values headers ''BOGO'' = Str ''true''))"
proof -
  have d: "isTrueCell rt c = (toLowerCase rt (String rt c) = ''true'')" by (simp add: isTrueCell_def)
  have u: "(isTrueCell rt c \<longleftrightarrow> c = Boolean True \<or> (\<exists>s. c = Str s \<and> spellsTrue s)) \<and>
      \<not> isTrueCell rt Undefined \<and> \<not> isTrueCell rt (Str []) \<and> \<not> isTrueCell rt (Boolean False) \<and>
      \<not> isTrueCell rt (Number n)" if h: "foldsTrue rt \<and> printsNumbers rt"
  proof -
    from h have f: "foldsTrue rt" and q: "printsNumbers rt" by simp_all
    show ?thesis
      using isTrueCell_cases [OF f q, of c] isTrueCell_number [OF f q, of n]
      by (simp add: isTrueCell_cases [OF f q] spellsTrue_words)
  qed
  have csv: "itemFlags (createMenuItemFromCSV rt t rid1 rid2 values headers) =
      Some (getValue rt values headers ''Availability Flag'' = Str ''true'',
            getValue rt values headers ''Sold Out'' = Str ''true'',
            getValue rt values headers ''BOGO'' = Str ''true'')"
    if "getValue rt values headers ''Name'' = Str x \<and>
        getValue rt values headers ''Description'' = Str y \<and>
        stripQuotes x \<noteq> [] \<and> stripQuotes y \<noteq> []"
    using that by (intro csv_flags [of rt "values" headers x y]) simp_all
  have U: "foldsTrue rt \<and> printsNumbers rt \<longrightarrow>
      (isTrueCell rt c \<longleftrightarrow> c = Boolean True \<or> (\<exists>s. c = Str s \<and> spellsTrue s)) \<and>
      \<not> isTrueCell rt Undefined \<and> \<not> isTrueCell rt (Str []) \<and> \<not> isTrueCell rt (Boolean False) \<and>
      \<not> isTrueCell rt (Number n)"
    by (rule impI) (rule u)
  have C: "getValue rt values headers ''Name'' = Str x \<and>
      getValue rt values headers ''Description'' = Str y \<and>
      stripQuotes x \<noteq> [] \<and> stripQuotes y \<noteq> [] \<longrightarrow>
    itemFlags (createMenuItemFromCSV rt t rid1 rid2 values headers) =
      Some (getValue rt values headers ''Availability Flag'' = Str ''true'',
            getValue rt values headers ''Sold Out'' = Str ''true'',
            getValue rt values headers ''BOGO'' = Str ''true'')"
    by (rule impI) (rule csv)
  from flags_excelItem [of rt row cid p] d U C
  show ?thesis by - (intro conjI; assumption)
qed

lemma lower_ascii_true:
  "lower_ascii c = CHR ''t'' \<longleftrightarrow> c = CHR ''t'' \<or> c = CHR ''T''"
  "lower_ascii c = CHR ''r'' \<longleftrightarrow> c = CHR ''r'' \<or> c = CHR ''R''"
  "lower_ascii c = CHR ''u'' \<longleftrightarrow> c = CHR ''u'' \<or> c = CHR ''U''"
  "lower_ascii c = CHR ''e'' \<longleftrightarrow> c = CHR ''e'' \<or> c = CHR ''E''"
  by (auto simp: lower_ascii_def split: if_splits)

lemma foldsTrue_exampleRuntime: "foldsTrue exampleRuntime"
proof -
  have "toLowerCase_ascii s = ''true'' \<longleftrightarrow> spellsTrue s" for s
  proof -
    have "toLowerCase_ascii s = ''true'' \<longleftrightarrow>
        (\<exists>a b c d. s = [a, b, c, d] \<and> lower_ascii a = CHR ''t'' \<and> lower_ascii b = CHR ''r'' \<and>
                   lower_ascii c = CHR ''u'' \<and> lower_ascii d = CHR ''e'')"
      unfolding toLowerCase_ascii_def by (auto simp: map_eq_Cons_conv)
    then show ?thesis by (simp add: lower_ascii_true spellsTrue_iff)
  qed
  then show ?thesis by (simp add: foldsTrue_def exampleRuntime_def)
qed

lemma digit_char_digit: "d < 10 \<Longrightarrow> digit_char d \<in> set ''0123456789''"
proof -
  assume "d < 10"
  then have "d \<in> {0, 1, 2, 3, 4, 5, 6, 7, 8, 9}" by auto
  then show ?thesis by (auto simp: digit_char_def)
qed

lemma natToString_start:
  "\<exists>c cs. natToString n = c # cs \<and> c \<in> set ''0123456789''"
proof (induction n rule: natToString.induct)
  case (1 n)
  show ?case
  proof (cases "n < 10")
    case True
    then have "natToString n = [digit_char n]" by (simp add: natToString.simps)
    with digit_char_digit [OF True] show ?thesis by blast
  next
    case False
    with 1 obtain c cs where "natToString (n div 10) = c # cs" "c \<in> set ''0123456789''"
      by blast
    moreover from False have "natToString n = natToString (n div 10) @ [digit_char (n mod 10)]"
      by (subst natToString.simps) simp
    ultimately have "natToString n = c # (cs @ [digit_char (n mod 10)])" by simp
    with \<open>c \<in> set ''0123456789''\<close> show ?thesis by blast
  qed
qed

lemma printsNumbers_exampleRuntime: "printsNumbers exampleRuntime"
proof -
  have "case numberToString_dec n of [] \<Rightarrow> False | c # cs \<Rightarrow> c \<in> set ''0123456789-NI''" for n
  proof (cases n)
    case (Num q)
    obtain c cs where s: "natToString (nat \<lfloor>\<bar>q\<bar>\<rfloor>) = c # cs" and c: "c \<in> set ''0123456789''"
      using natToString_start by blast
    from c have c': "c \<in> set ''0123456789-NI''" by auto
    show ?thesis
    proof (cases "q < 0")
      case True
      with Num show ?thesis by (simp add: Let_def)
    next
      case False
      with Num s c' show ?thesis by (simp add: Let_def)
    qed
  qed simp_all
  then show ?thesis by (simp add: printsNumbers_def exampleRuntime_def)
qed

lemma refund_values:
  "getValue exampleRuntime refundValues refundHeaders ''Name'' = Str ''Refund''"
  "getValue exampleRuntime refundValues refundHeaders ''Description'' = Str ''Money back''"
  "getValue exampleRuntime refundValues refundHeaders ''Price'' = Str ''-5''"
  "getValue exampleRuntime refundValues refundHeaders ''Availability Flag'' = Str ''TRUE''"
  "getValue exampleRuntime refundValues refundHeaders ''Sold Out'' = Str []"
  "getValue exampleRuntime refundValues refundHeaders ''BOGO'' = Str []"
  by (simp_all add: getValue_def refundValues_def refundHeaders_def exampleRuntime_def
        toLowerCase_ascii_def lower_ascii_def)

lemma refund_nonempty: "stripQuotes ''Refund'' \<noteq> []" "stripQuotes ''Money back'' \<noteq> []"
  by (simp_all add: stripQuotes_def)

theorem flags_parsed_witness:
  "foldsTrue exampleRuntime \<and> printsNumbers exampleRuntime \<and>
   getValue exampleRuntime refundValues refundHeaders ''Name'' = Str ''Refund'' \<and>
   getValue exampleRuntime refundValues refundHeaders ''Description'' = Str ''Money back'' \<and>
   stripQuotes ''Refund'' \<noteq> [] \<and> stripQuotes ''Money back'' \<noteq> [] \<and>
   itemFlags (createMenuItemFromCSV exampleRuntime 0 ''r0'' ''r1'' refundValues refundHeaders) =
     Some (False, False, False) \<and>
   isTrueCell exampleRuntime (Str ''TRUE'') \<and>
   \<not> isTrueCell exampleRuntime (Number (Num 1)) \<and>
   \<not> isTrueCell exampleRuntime (Str ''yes'') \<and>
   availabilityFlag (excelItem exampleRuntime colaRow ''cat-4'' (Num 2)) =
     isTrueCell exampleRuntime (colaRow ''Available'')"
proof -
  note h = foldsTrue_exampleRuntime printsNumbers_exampleRuntime
  note t = flags_parsed [of exampleRuntime colaRow "''cat-4''" "Num 2" "Str ''TRUE''" "Num 1"
             refundValues refundHeaders "''Refund''" "''Money back''" 0 "''r0''" "''r1''"]
  note y = flags_parsed [of exampleRuntime colaRow "''cat-4''" "Num 2" "Str ''yes''" "Num 1"
             refundValues refundHeaders "''Refund''" "''Money back''" 0 "''r0''" "''r1''"]
  from t have f: "itemFlags (createMenuItemFromCSV exampleRuntime 0 ''r0'' ''r1'' refundValues
                    refundHeaders) = Some (False, False, False)"
    by (simp add: refund_values refund_nonempty)
  have hh: "foldsTrue exampleRuntime \<and> printsNumbers exampleRuntime" using h by (intro conjI)
  from t have "foldsTrue exampleRuntime \<and> printsNumbers exampleRuntime \<longrightarrow>
      (isTrueCell exampleRuntime (Str ''TRUE'') \<longleftrightarrow>
         Str ''TRUE'' = Boolean True \<or> (\<exists>s. Str ''TRUE'' = Str s \<and> spellsTrue s)) \<and>
      \<not> isTrueCell exampleRuntime Undefined \<and> \<not> isTrueCell exampleRuntime (Str []) \<and>
      \<not> isTrueCell exampleRuntime (Boolean False) \<and>
      \<not> isTrueCell exampleRuntime (Number (Num 1))"
    by (elim conjE)
  note c = mp [OF this hh]
  from c have s: "isTrueCell exampleRuntime (Str ''TRUE'') \<longleftrightarrow>
      Str ''TRUE'' = Boolean True \<or> (\<exists>s. Str ''TRUE'' = Str s \<and> spellsTrue s)"
    by (elim conjE)
  from c have n: "\<not> isTrueCell exampleRuntime (Number (Num 1))" by (elim conjE)
  have u: "isTrueCell exampleRuntime (Str ''TRUE'')" unfolding s by (simp add: spellsTrue_def)
  from y have "foldsTrue exampleRuntime \<and> printsNumbers exampleRuntime \<longrightarrow>
      (isTrueCell exampleRuntime (Str ''yes'') \<longleftrightarrow>
         Str ''yes'' = Boolean True \<or> (\<exists>s. Str ''yes'' = Str s \<and> spellsTrue s)) \<and>
      \<not> isTrueCell exampleRuntime Undefined \<and> \<not> isTrueCell exampleRuntime (Str []) \<and>
      \<not> isTrueCell exampleRuntime (Boolean False) \<and>
      \<not> isTrueCell exampleRuntime (Number (Num 1))"
    by (elim conjE)
  from mp [OF this hh] have "isTrueCell exampleRuntime (Str ''yes'') \<longleftrightarrow>
      Str ''yes'' = Boolean True \<or> (\<exists>s. Str ''yes'' = Str s \<and> spellsTrue s)"
    by (elim conjE)
  then have v: "\<not> isTrueCell exampleRuntime (Str ''yes'')" by (simp add: spellsTrue_def)
  from t have a: "availabilityFlag (excelItem exampleRuntime colaRow ''cat-4'' (Num 2)) =
     isTrueCell exampleRuntime (colaRow ''Available'')" by (elim conjE)
  from h f u n v a show ?thesis by (simp add: refund_values refund_nonempty)
qed

theorem csv_flag_case_counterexample:
  "itemFlags (createMenuItemFromCSV exampleRuntime 0 ''r0'' ''r1'' refundValues refundHeaders) =
     Some (False, False, False) \<and>
   getValue exampleRuntime refundValues refundHeaders ''Availability Flag'' = Str ''TRUE'' \<and>
   toLowerCase exampleRuntime ''TRUE'' = ''true''"
proof -
  have "itemFlags (createMenuItemFromCSV exampleRuntime 0 ''r0'' ''r1'' refundValues
               refundHeaders) = Some (False, False, False)"
    using csv_flags [OF refund_values(1,2) refund_nonempty, of 0 "''r0''" "''r1''"]
    by (simp add: refund_values)
  moreover have "toLowerCase exampleRuntime ''TRUE'' = ''true''"
    by (simp add: exampleRuntime_def toLowerCase_ascii_def lower_ascii_def)
  ultimately show ?thesis by (simp add: refund_values)
qed
section \<open>Prices\<close>

lemma rowItem_bad_price:
  "isNaN (parseFloat_cell rt (row ''Price'')) \<or> le_zero (parseFloat_cell rt (row ''Price'')) \<Longrightarrow>
   rowItem rt m row = None"
  by (simp add: rowItem_def Let_def split: option.splits)

lemma rowMessage_bad_price:
  "isNaN (parseFloat_cell rt (row ''Price'')) \<or> le_zero (parseFloat_cell rt (row ''Price'')) \<Longrightarrow>
   rowMessage rt row =
     Some (rowLabel rt row @
           (if truthy (or_else (row ''Category Name'') (row ''category_name''))
            then ''Invalid or missing Price.'' else ''Missing Category Name.''))"
  by (simp add: rowMessage_def)

lemma uploadRow_rejects:
  assumes "rowItem rt (categoryNameToIdMap (fst (uploadRow rt n row (s, w)))) row = None"
  shows "newItems (fst (uploadRow rt n row (s, w))) = newItems s \<and>
         successCount (fst (uploadRow rt n row (s, w))) = successCount s \<and>
         errorCount (fst (uploadRow rt n row (s, w))) = errorCount s + 1"
  using uploadRow_items [of rt n row s w] assms by simp

lemma csv_price:
  assumes "getValue rt values headers ''Name'' = Str x"
    "getValue rt values headers ''Description'' = Str y"
    "stripQuotes x \<noteq> []" "stripQuotes y \<noteq> []"
  shows "itemPrice (createMenuItemFromCSV rt t rid1 rid2 values headers) =
      Some (if truthy_number (parseFloat_cell rt (getValue rt values headers ''Price''))
            then parseFloat_cell rt (getValue rt values headers ''Price'') else Num 0)"
proof -
  from createMenuItemFromCSV_item [OF assms, of t rid1 rid2] obtain item where
    "createMenuItemFromCSV rt t rid1 rid2 values headers = Inr (Some item)"
    "price item =
           (if truthy_number (parseFloat_cell rt (getValue rt values headers ''Price''))
            then parseFloat_cell rt (getValue rt values headers ''Price'') else Num 0)" by blast
  then show ?thesis by (simp add: itemPrice_def)
qed

lemma map_filter_filter:
  "(\<And>x. \<not> P x \<Longrightarrow> f x = None) \<Longrightarrow> List.map_filter f (filter P xs) = List.map_filter f xs"
proof (induction xs)
  case Nil
  show ?case by simp
next
  case (Cons a xs)
  from Cons.IH [OF Cons.prems]
  have ih: "List.map_filter f (filter P xs) = List.map_filter f xs" .
  show ?case
  proof (cases "P a")
    case True
    with ih show ?thesis by (simp add: List.map_filter_simps split: option.splits)
  next
    case False
    with Cons.prems [of a] ih show ?thesis by (simp add: List.map_filter_simps)
  qed
qed

lemma upload_valid_prices:
  "newItems (final (fst (handleExcelUpload rt categories rows w))) =
     List.map_filter
       (rowItem rt (categoryNameToIdMap (final (fst (handleExcelUpload rt categories rows w)))))
       (filter (\<lambda>row. \<not> (isNaN (parseFloat_cell rt (row ''Price'')) \<or>
                             le_zero (parseFloat_cell rt (row ''Price'')))) rows)"
proof -
  have "List.map_filter
       (rowItem rt (categoryNameToIdMap (final (fst (handleExcelUpload rt categories rows w)))))
       (filter (\<lambda>row. \<not> (isNaN (parseFloat_cell rt (row ''Price'')) \<or>
                             le_zero (parseFloat_cell rt (row ''Price'')))) rows) =
     List.map_filter
       (rowItem rt (categoryNameToIdMap (final (fst (handleExcelUpload rt categories rows w)))))
       rows"
    by (rule map_filter_filter) (simp add: rowItem_bad_price)
  then show ?thesis by (simp only: upload_newItems [symmetric])
qed

lemma typeof_prop_price:
  "typeof_prop (JObj (ps @ [(''price'', JNum q)])) key =
     (if key = ''price'' then ''number'' else typeof_prop (JObj ps) key)"
  by simp

lemma validateMenuItem_price_free:
  "validateMenuItem (JObj (ps @ [(''price'', JNum q)])) =
   validateMenuItem (JObj (ps @ [(''price'', JNum q')]))"
  unfolding validateMenuItem_def typeof_prop_price by simp

lemma validateMenuItem_any_price:
  "validateMenuItem (JObj [(''name'', JStr a), (''description'', JStr d), (''price'', JNum q),
                           (''categoryId'', JStr c)])"
  by (simp add: validateMenuItem_def)

text \<open>
  Claim C2, as the code has it. In a spreadsheet upload a row whose price is missing,
  is a value in which \<open>parseFloat\<close> finds no number (it reads as \<open>NaN\<close>), or is
  zero or negative gives no item: the row adds one error with one message, which
  names the item (or "N/A") and says that the price is invalid or missing (or that
  the category name is missing, when it is), and nothing to the items that are
  submitted. The CSV importer has no such check: a line with a name and a
  description gives an item whatever its price is, with the price read, or 0 when
  it reads as \<open>NaN\<close> or 0; and \<open>validateMenuItem\<close> accepts an item with string name,
  description and category id whatever number its price is: its answer does not
  depend on which number the price is. For a whole upload, the items collected come
  from the rows with a valid price only, and they are what the one batch call
  carries.
\<close>

theorem invalid_price_rejected:
  "isNaN (parseFloat_cell rt Undefined) \<and> isNaN (parseFloat_cell rt (Boolean b)) \<and>
   (isNaN (parseFloat_cell rt (row ''Price'')) \<or> le_zero (parseFloat_cell rt (row ''Price'')) \<longrightarrow>
      rowItem rt m row = None \<and>
      newItems (fst (uploadRow rt n row (s, w))) = newItems s \<and>
      successCount (fst (uploadRow rt n row (s, w))) = successCount s \<and>
      errorCount (fst (uploadRow rt n row (s, w))) = errorCount s + 1 \<and>
      errors (fst (uploadRow rt n row (s, w))) =
        errors s @
        [rowLabel rt row @
         (if truthy (or_else (row ''Category Name'') (row ''category_name''))
          then ''Invalid or missing Price.'' else ''Missing Category Name.'')]) \<and>
   (getValue rt values headers ''Name'' = Str x \<and> getValue rt values headers ''Description'' = Str y \<and>
    stripQuotes x \<noteq> [] \<and> stripQuotes y \<noteq> [] \<longrightarrow>
    itemPrice (createMenuItemFromCSV rt t rid1 rid2 values headers) =
      Some (if truthy_number (parseFloat_cell rt (getValue rt values headers ''Price''))
            then parseFloat_cell rt (getValue rt values headers ''Price'') else Num 0)) \<and>
   validateMenuItem (JObj [(''name'', JStr a), (''description'', JStr d), (''price'', JNum q),
                           (''categoryId'', JStr c)]) \<and>
   validateMenuItem (JObj (ps @ [(''price'', JNum q)])) =
     validateMenuItem (JObj (ps @ [(''price'', JNum q')])) \<and>
   newItems (final (fst (handleExcelUpload rt categories rows w))) =
     List.map_filter
       (rowItem rt (categoryNameToIdMap (final (fst (handleExcelUpload rt categories rows w)))))
       (filter (\<lambda>row. \<not> (isNaN (parseFloat_cell rt (row ''Price'')) \<or>
                             le_zero (parseFloat_cell rt (row ''Price'')))) rows) \<and>
   batches (callsSince w (snd (handleExcelUpload rt categories rows w))) =
     (if newItems (final (fst (handleExcelUpload rt categories rows w))) = [] then []
      else [newItems (final (fst (handleExcelUpload rt categories rows w)))])"
proof -
  have u: "rowItem rt m row = None \<and>
      newItems (fst (uploadRow rt n row (s, w))) = newItems s \<and>
      successCount (fst (uploadRow rt n row (s, w))) = successCount s \<and>
      errorCount (fst (uploadRow rt n row (s, w))) = errorCount s + 1 \<and>
      errors (fst (uploadRow rt n row (s, w))) =
        errors s @
        [rowLabel rt row @
         (if truthy (or_else (row ''Category Name'') (row ''category_name''))
          then ''Invalid or missing Price.'' else ''Missing Category Name.'')]"
    if h: "isNaN (parseFloat_cell rt (row ''Price'')) \<or> le_zero (parseFloat_cell rt (row ''Price''))"
  proof -
    from h have r: "rowItem rt m' row = None" for m'
      by (rule rowItem_bad_price [of rt row])
    have e: "errors (fst (uploadRow rt n row (s, w))) =
        errors s @
        [rowLabel rt row @
         (if truthy (or_else (row ''Category Name'') (row ''category_name''))
          then ''Invalid or missing Price.'' else ''Missing Category Name.'')]"
      using rowMessage_bad_price [of rt row] h unfolding uploadRow_message by simp
    from r uploadRow_rejects [of rt n row s w, OF r] e show ?thesis by simp
  qed
  have v: "itemPrice (createMenuItemFromCSV rt t rid1 rid2 values headers) =
      Some (if truthy_number (parseFloat_cell rt (getValue rt values headers ''Price''))
            then parseFloat_cell rt (getValue rt values headers ''Price'') else Num 0)"
    if "getValue rt values headers ''Name'' = Str x \<and>
        getValue rt values headers ''Description'' = Str y \<and>
        stripQuotes x \<noteq> [] \<and> stripQuotes y \<noteq> []"
    using that by (intro csv_price [of rt "values" headers x y]) simp_all
  show ?thesis
  proof (intro conjI)
    show "isNaN (parseFloat_cell rt Undefined)" by simp
  next
    show "isNaN (parseFloat_cell rt (Boolean b))" by simp
  next
    show "isNaN (parseFloat_cell rt (row ''Price'')) \<or> le_zero (parseFloat_cell rt (row ''Price'')) \<longrightarrow>
      rowItem rt m row = None \<and>
      newItems (fst (uploadRow rt n row (s, w))) = newItems s \<and>
      successCount (fst (uploadRow rt n row (s, w))) = successCount s \<and>
      errorCount (fst (uploadRow rt n row (s, w))) = errorCount s + 1 \<and>
      errors (fst (uploadRow rt n row (s, w))) =
        errors s @
        [rowLabel rt row @
         (if truthy (or_else (row ''Category Name'') (row ''category_name''))
          then ''Invalid or missing Price.'' else ''Missing Category Name.'')]"
      by (rule impI) (rule u)
  next
    show "getValue rt values headers ''Name'' = Str x \<and> getValue rt values headers ''Description'' = Str y \<and>
      stripQuotes x \<noteq> [] \<and> stripQuotes y \<noteq> [] \<longrightarrow>
      itemPrice (createMenuItemFromCSV rt t rid1 rid2 values headers) =
        Some (if truthy_number (parseFloat_cell rt (getValue rt values headers ''Price''))
              then parseFloat_cell rt (getValue rt values headers ''Price'') else Num 0)"
      by (rule impI) (rule v)
  next
    show "validateMenuItem (JObj [(''name'', JStr a), (''description'', JStr d), (''price'', JNum q),
                           (''categoryId'', JStr c)])"
      by (rule validateMenuItem_any_price)
  next
    show "validateMenuItem (JObj (ps @ [(''price'', JNum q)])) =
      validateMenuItem (JObj (ps @ [(''price'', JNum q')]))"
      by (rule validateMenuItem_price_free)
  next
    show "newItems (final (fst (handleExcelUpload rt categories rows w))) =
      List.map_filter
       (rowItem rt (categoryNameToIdMap (final (fst (handleExcelUpload rt categories rows w)))))
       (filter (\<lambda>row. \<not> (isNaN (parseFloat_cell rt (row ''Price'')) \<or>
                             le_zero (parseFloat_cell rt (row ''Price'')))) rows)"
      by (rule upload_valid_prices)
  next
    show "batches (callsSince w (snd (handleExcelUpload rt categories rows w))) =
     (if newItems (final (fst (handleExcelUpload rt categories rows w))) = [] then []
      else [newItems (final (fst (handleExcelUpload rt categories rows w)))])"
      by (rule upload_batches)
  qed
qed

lemma parseFloat_examples:
  "parseFloat exampleRuntime ''0'' = Num 0"
  "parseFloat exampleRuntime ''-5'' = Num (-5)"
  "parseFloat exampleRuntime ''abc'' = NaN"
  "parseFloat exampleRuntime ''5abc'' = Num 5"
  by (simp_all add: exampleRuntime_def parseFloat_dec_def takeSign_def isSpace_ascii_def isDigit_def
        digit_of_def digitsValue_def)

lemma price_examples:
  "freeRow ''Price'' = Str ''0''" "negativeRow ''Price'' = Str ''-5''"
  "wordRow ''Price'' = Str ''abc''" "unpricedRow ''Price'' = Undefined"
  "prefixRow ''Price'' = Str ''5abc''"
  by (simp_all add: freeRow_def negativeRow_def wordRow_def unpricedRow_def prefixRow_def rowOf_def)

lemma named_examples:
  "truthy (or_else (negativeRow ''Category Name'') (negativeRow ''category_name''))"
  "rowLabel exampleRuntime negativeRow = ''Row with item '' @ [CHR 0x22] @ ''Refund'' @ [CHR 0x22] @
     '' skipped: ''"
  "truthy (or_else (wordRow ''Category Name'') (wordRow ''category_name''))"
  "rowLabel exampleRuntime wordRow = ''Row with item '' @ [CHR 0x22] @ ''Soup'' @ [CHR 0x22] @
     '' skipped: ''"
  by (simp_all add: negativeRow_def wordRow_def rowOf_def rowLabel_def or_else_def)

theorem invalid_price_rejected_witness:
  "le_zero (parseFloat_cell exampleRuntime (negativeRow ''Price'')) \<and>
   rowItem exampleRuntime [] negativeRow = None \<and>
   newItems (fst (uploadRow exampleRuntime 4 negativeRow
                    (uploadStart exampleRuntime initialCategoriesData, page0))) = [] \<and>
   errorCount (fst (uploadRow exampleRuntime 4 negativeRow
                      (uploadStart exampleRuntime initialCategoriesData, page0))) = 1 \<and>
   errors (fst (uploadRow exampleRuntime 4 negativeRow
                  (uploadStart exampleRuntime initialCategoriesData, page0))) =
     [''Row with item '' @ [CHR 0x22] @ ''Refund'' @ [CHR 0x22] @
      '' skipped: Invalid or missing Price.''] \<and>
   isNaN (parseFloat_cell exampleRuntime (wordRow ''Price'')) \<and>
   errors (fst (uploadRow exampleRuntime 4 wordRow
                  (uploadStart exampleRuntime initialCategoriesData, page0))) =
     [''Row with item '' @ [CHR 0x22] @ ''Soup'' @ [CHR 0x22] @
      '' skipped: Invalid or missing Price.''] \<and>
   getValue exampleRuntime refundValues refundHeaders ''Name'' = Str ''Refund'' \<and>
   getValue exampleRuntime refundValues refundHeaders ''Description'' = Str ''Money back'' \<and>
   stripQuotes ''Refund'' \<noteq> [] \<and> stripQuotes ''Money back'' \<noteq> [] \<and>
   itemPrice (createMenuItemFromCSV exampleRuntime 0 ''r0'' ''r1'' refundValues refundHeaders) =
     Some (Num (-5)) \<and>
   map name (newItems (final (fst
      (handleExcelUpload exampleRuntime initialCategoriesData [negativeRow, colaRow, wordRow]
         page0)))) = [''Cola'']"
proof -
  let ?s0 = "uploadStart exampleRuntime initialCategoriesData"
  let ?run = "handleExcelUpload exampleRuntime initialCategoriesData [negativeRow, colaRow, wordRow]
                page0"
  have p: "parseFloat_cell exampleRuntime (negativeRow ''Price'') = Num (-5)"
    by (simp add: price_examples parseFloat_examples)
  then have h: "le_zero (parseFloat_cell exampleRuntime (negativeRow ''Price''))" by simp
  have p': "parseFloat_cell exampleRuntime (wordRow ''Price'') = NaN"
    by (simp add: price_examples parseFloat_examples)
  then have h': "isNaN (parseFloat_cell exampleRuntime (wordRow ''Price''))" by simp
  have q: "parseFloat_cell exampleRuntime
             (getValue exampleRuntime refundValues refundHeaders ''Price'') = Num (-5)"
    by (simp add: refund_values parseFloat_examples)
  note t = invalid_price_rejected [of exampleRuntime True negativeRow "[]" 4 ?s0 page0
             refundValues refundHeaders "''Refund''" "''Money back''" 0 "''r0''" "''r1''"
             "''Refund''" "''Money back''" "Num (-5)" "''cat-4''" "[]" "Num 0"
             initialCategoriesData "[negativeRow, colaRow, wordRow]"]
  note t' = invalid_price_rejected [of exampleRuntime True wordRow "[]" 4 ?s0 page0
             refundValues refundHeaders "''Refund''" "''Money back''" 0 "''r0''" "''r1''"
             "''Refund''" "''Money back''" "Num (-5)" "''cat-4''" "[]" "Num 0"
             initialCategoriesData "[negativeRow, colaRow, wordRow]"]
  note t2 = t [THEN conjunct2, THEN conjunct2, THEN conjunct1, THEN mp, OF disjI2, OF h]
  note t2' = t' [THEN conjunct2, THEN conjunct2, THEN conjunct1, THEN mp, OF disjI1, OF h']
  note t3 = t [THEN conjunct2, THEN conjunct2, THEN conjunct2, THEN conjunct1, THEN mp,
               OF conjI [OF refund_values(1) conjI [OF refund_values(2) conjI [OF refund_nonempty]]]]
  have u: "newItems ?s0 = []" "errorCount ?s0 = 0" "errors ?s0 = []"
    by (simp_all add: uploadStart_def)
  from t2 have a: "rowItem exampleRuntime [] negativeRow = None"
    "newItems (fst (uploadRow exampleRuntime 4 negativeRow (?s0, page0))) = newItems ?s0"
    "errorCount (fst (uploadRow exampleRuntime 4 negativeRow (?s0, page0))) = errorCount ?s0 + 1"
    "errors (fst (uploadRow exampleRuntime 4 negativeRow (?s0, page0))) =
       errors ?s0 @
       [rowLabel exampleRuntime negativeRow @
        (if truthy (or_else (negativeRow ''Category Name'') (negativeRow ''category_name''))
         then ''Invalid or missing Price.'' else ''Missing Category Name.'')]"
    by simp_all
  from t2' have a': "errors (fst (uploadRow exampleRuntime 4 wordRow (?s0, page0))) =
       errors ?s0 @
       [rowLabel exampleRuntime wordRow @
        (if truthy (or_else (wordRow ''Category Name'') (wordRow ''category_name''))
         then ''Invalid or missing Price.'' else ''Missing Category Name.'')]"
    by simp
  from t3 have b:
    "itemPrice (createMenuItemFromCSV exampleRuntime 0 ''r0'' ''r1'' refundValues refundHeaders) =
       Some (Num (-5))"
    by (simp add: q)
  have 1: "newItems (fst (uploadRow exampleRuntime 4 negativeRow (?s0, page0))) = []"
    using a(2) u(1) by simp
  have 2: "errorCount (fst (uploadRow exampleRuntime 4 negativeRow (?s0, page0))) = 1"
    using a(3) u(2) by simp
  have 3: "errors (fst (uploadRow exampleRuntime 4 negativeRow (?s0, page0))) =
     [''Row with item '' @ [CHR 0x22] @ ''Refund'' @ [CHR 0x22] @
      '' skipped: Invalid or missing Price.'']"
    unfolding a(4) u(3) by (simp add: named_examples)
  have 4: "errors (fst (uploadRow exampleRuntime 4 wordRow (?s0, page0))) =
     [''Row with item '' @ [CHR 0x22] @ ''Soup'' @ [CHR 0x22] @
      '' skipped: Invalid or missing Price.'']"
    unfolding a' u(3) by (simp add: named_examples)
  have pc: "parseFloat_cell exampleRuntime (colaRow ''Price'') = Num 2"
    by (simp add: colaRow_def rowOf_def)
  from t have "newItems (final (fst ?run)) =
     List.map_filter (rowItem exampleRuntime (categoryNameToIdMap (final (fst ?run))))
       (filter (\<lambda>row. \<not> (isNaN (parseFloat_cell exampleRuntime (row ''Price'')) \<or>
                             le_zero (parseFloat_cell exampleRuntime (row ''Price''))))
          [negativeRow, colaRow, wordRow])"
    by (elim conjE)
  then have "newItems (final (fst ?run)) =
     List.map_filter (rowItem exampleRuntime (categoryNameToIdMap (final (fst ?run)))) [colaRow]"
    by (simp add: p p' pc)
  moreover obtain x where
    "rowItem exampleRuntime (categoryNameToIdMap (final (fst ?run))) colaRow = Some x"
    "name x = ''Cola''"
    using rowItem_names(1) [of "categoryNameToIdMap (final (fst ?run))"] by auto
  ultimately have 5: "map name (newItems (final (fst ?run))) = [''Cola'']"
    by (simp add: List.map_filter_simps)
  from h a(1) 1 2 3 h' 4 refund_values(1,2) refund_nonempty b 5
  show ?thesis by - (intro conjI; assumption)
qed

lemma rowItem_prefix:
  "map_option price (rowItem exampleRuntime m prefixRow) = Some (Num 5)"
  by (simp add: rowItem_def rowKey_def Let_def name_excelItem String_or_def or_else_def
        price_examples parseFloat_examples)
     (simp add: prefixRow_def rowOf_def excelItem_def)

theorem csv_keeps_negative_price_counterexample:
  "itemPrice (createMenuItemFromCSV exampleRuntime 0 ''r0'' ''r1'' refundValues refundHeaders) =
     Some (Num (-5)) \<and>
   getValue exampleRuntime refundValues refundHeaders ''Price'' = Str ''-5'' \<and>
   validateMenuItem (JObj [(''name'', JStr ''Refund''), (''description'', JStr ''Money back''),
                           (''price'', JNum (Num (-5))), (''categoryId'', JStr ''cat-4'')]) \<and>
   prefixRow ''Price'' = Str ''5abc'' \<and>
   map price (newItems (final (fst
      (handleExcelUpload exampleRuntime initialCategoriesData [prefixRow] page0)))) = [Num 5] \<and>
   errorCount (final (fst
      (handleExcelUpload exampleRuntime initialCategoriesData [prefixRow] page0))) = 0"
proof -
  let ?run = "handleExcelUpload exampleRuntime initialCategoriesData [prefixRow] page0"
  have q: "parseFloat_cell exampleRuntime
             (getValue exampleRuntime refundValues refundHeaders ''Price'') = Num (-5)"
    by (simp add: refund_values parseFloat_examples)
  have 1: "itemPrice (createMenuItemFromCSV exampleRuntime 0 ''r0'' ''r1'' refundValues
               refundHeaders) = Some (Num (-5))"
    using csv_price [OF refund_values(1,2) refund_nonempty, of 0 "''r0''" "''r1''"]
    by (simp add: q)
  have 2: "validateMenuItem (JObj [(''name'', JStr ''Refund''),
       (''description'', JStr ''Money back''), (''price'', JNum (Num (-5))),
       (''categoryId'', JStr ''cat-4'')])"
    by (rule validateMenuItem_any_price)
  obtain x where x: "rowItem exampleRuntime (categoryNameToIdMap (final (fst ?run))) prefixRow = Some x"
      "price x = Num 5"
    using rowItem_prefix [of "categoryNameToIdMap (final (fst ?run))"] by auto
  have i: "newItems (final (fst ?run)) = [x]"
    by (subst upload_newItems) (simp add: List.map_filter_simps x(1))
  then have 3: "map price (newItems (final (fst ?run))) = [Num 5]" by (simp add: x(2))
  from upload_counts [of exampleRuntime initialCategoriesData "[prefixRow]" page0] i
  have 4: "errorCount (final (fst ?run)) = 0" by simp
  from 1 refund_values(3) 2 price_examples(5) 3 4 show ?thesis by - (intro conjI; assumption)
qed
section \<open>Splitting CSV lines\<close>

text \<open>
  Inside quotes \<open>parseCSVLine\<close> takes every character up to the closing quote into
  the current field, commas included.
\<close>

lemma parseCSVLine_in_quotes:
  "CHR 0x22 \<notin> set q \<Longrightarrow>
   parseCSVLine_loop rt (q @ CHR 0x22 # rest) result current True =
   parseCSVLine_loop rt rest result (current @ q) False"
  by (induction q arbitrary: current) auto

lemma parseCSVLine_quoted_field:
  "CHR 0x22 \<notin> set q \<Longrightarrow>
   parseCSVLine_loop rt (CHR 0x22 # q @ CHR 0x22 # rest) result current False =
   parseCSVLine_loop rt rest result (current @ q) False"
  by (simp add: parseCSVLine_in_quotes)

text \<open>
  Claim C5 at a header line with a quoted comma: the data-row parser keeps the
  quoted field whole, the header parser of \<open>importFromCSV\<close> splits it in two,
  whatever \<open>trim\<close> does; with the \<open>trim\<close> of the examples, the fields are
  \<open>Name, Full\<close> and \<open>Description\<close> for the one and \<open>Name\<close>, \<open>Full\<close> and
  \<open>Description\<close> for the other.
\<close>

theorem header_split_inside_quotes:
  "parseCSVLine rt quotedHeaderLine = [trim rt ''Name, Full'', trim rt ''Description''] \<and>
   parseHeaders rt quotedHeaderLine =
     [stripQuotes (trim rt ([CHR 0x22] @ ''Name'')), stripQuotes (trim rt ('' Full'' @ [CHR 0x22])),
      stripQuotes (trim rt ''Description'')] \<and>
   parseCSVLine exampleRuntime quotedHeaderLine = [''Name, Full'', ''Description''] \<and>
   parseHeaders exampleRuntime quotedHeaderLine = [''Name'', ''Full'', ''Description''] \<and>
   headersOf exampleRuntime (quotedHeaderLine @ [CHR 0x0A] @ quotedHeaderLine) =
     [''Name'', ''Full'', ''Description'']"
  by (simp add: quotedHeaderLine_def parseCSVLine_def parseHeaders_def headersOf_def
        exampleRuntime_def trim_ascii_def isSpace_ascii_def stripQuotes_def)
section \<open>Exports\<close>

lemma download_simps:
  "categoryDB (download f a w) = categoryDB w" "menuItemDB (download f a w) = menuItemDB w"
  "downloads (download f a w) = downloads w @ [(f, a)]" "now (download f a w) = now w"
  by (simp_all add: download_def)



lemma getAllMenuItems_eq:
  "getAllMenuItems tid w =
     (filter (\<lambda>item. tenantId item = tid) (map snd (menuItemDB w)),
      simulateDelay 500 (logCall (GetAllMenuItems tid) w))"
  by (simp add: getAllMenuItems_def Let_def resolveWithCopy_def lc_simps)





lemma exportData_empty_csv:
  "format options = Csv \<Longrightarrow>
   exportData rt [] categories options w =
     (Inr (), download (exportFileName rt (now w) ''csv'') (CsvFile (join '','' csvHeaders)) w)"
proof -
  have "map ((\<lambda>c. case c of Undefined \<Rightarrow> [] | _ \<Rightarrow> String rt c) \<circ> Str) hs = hs" for hs
    by (induction hs) simp_all
  then show "format options = Csv \<Longrightarrow> ?thesis"
    by (simp add: exportData_def exportToCSV_def Let_def joinCells_def)
qed

lemma exportData_empty_json:
  "format options = Json \<Longrightarrow>
   exportData rt [] categories options w =
     (Inr (),
      download (exportFileName rt (now w) ''json'')
        (JsonFile
           \<lparr>exportDate = toISOString rt (now w), version = ''1.0'',
            metadata =
              (if includeMetadata options = Some True
               then Some \<lparr>totalItems = 0, totalCategories = length categories,
                          exportOptions = options\<rparr>
               else None),
            json_categories = categories, json_menuItems = []\<rparr>) w)"
  by (simp add: exportData_def exportToJSON_def Let_def)

lemma exportData_empty_xlsx:
  "format options = Xlsx \<Longrightarrow> xlsxDefined rt \<Longrightarrow>
   exportData rt [] categories options w =
     (Inr (),
      download (exportFileName rt (now w) ''xlsx'')
        (XlsxFile [(''Categories'', categoriesSheet categories), (''Menu Items'', []),
                   (''Summary'', summarySheet rt (now w) categories [])]) w)"
  by (simp add: exportData_def exportToXLSX_def Let_def menuItemsSheet_def)

lemma downloads_frame:
  "downloads (simulateDelay d w) = downloads w" "downloads (logCall c w) = downloads w"
  by (simp_all add: simulateDelay_def logCall_def)

lemma handleExcelExport_empty:
  "filter (\<lambda>item. tenantId item = ''tenant-123'') (map snd (menuItemDB w)) = [] \<Longrightarrow>
   fst (handleExcelExport rt categories w) = (''No items to export.'', ''error'') \<and>
   downloads (snd (handleExcelExport rt categories w)) = downloads w"
  by (simp add: handleExcelExport_def getAllMenuItems_eq Let_def downloads_frame)

lemma handleExport_toast:
  assumes "fst (exportData rt (if length filteredMenuItems > 0 then filteredMenuItems else menuItems)
          categories opts w) = Inr ()"
  shows "fst (handleExport rt filteredMenuItems menuItems categories opts w) =
     (''Export completed successfully!'', ''success'')"
proof -
  obtain r w1 where
    e: "exportData rt (if length filteredMenuItems > 0 then filteredMenuItems else menuItems)
          categories opts w = (r, w1)"
    by (cases "exportData rt (if length filteredMenuItems > 0 then filteredMenuItems else menuItems)
          categories opts w")
  with assms have "r = Inr ()" by simp
  with e show ?thesis unfolding handleExport_def by simp
qed

text \<open>
  Claim C4, as the code has it. \<open>handleExcelExport\<close> reports "No items to export."
  and writes nothing when the store has no item of the tenant. \<open>exportData\<close> has no
  such check: with no items it writes its file all the same (a CSV file with the
  header line only; a JSON file, and an XLSX file when the library is there, with
  the categories and no items), and \<open>handleExport\<close> then reports success.
\<close>

theorem export_of_no_items:
  "(filter (\<lambda>item. tenantId item = ''tenant-123'') (map snd (menuItemDB w)) = [] \<longrightarrow>
      fst (handleExcelExport rt categories w) = (''No items to export.'', ''error'') \<and>
      downloads (snd (handleExcelExport rt categories w)) = downloads w) \<and>
   (format options = Csv \<longrightarrow>
      exportData rt [] categories options w =
        (Inr (), download (exportFileName rt (now w) ''csv'') (CsvFile (join '','' csvHeaders)) w)) \<and>
   (format options = Json \<longrightarrow>
      exportData rt [] categories options w =
        (Inr (),
         download (exportFileName rt (now w) ''json'')
           (JsonFile
              \<lparr>exportDate = toISOString rt (now w), version = ''1.0'',
               metadata =
                 (if includeMetadata options = Some True
                  then Some \<lparr>totalItems = 0, totalCategories = length categories,
                             exportOptions = options\<rparr>
                  else None),
               json_categories = categories, json_menuItems = []\<rparr>) w)) \<and>
   (format options = Xlsx \<and> xlsxDefined rt \<longrightarrow>
      exportData rt [] categories options w =
        (Inr (),
         download (exportFileName rt (now w) ''xlsx'')
           (XlsxFile [(''Categories'', categoriesSheet categories), (''Menu Items'', []),
                      (''Summary'', summarySheet rt (now w) categories [])]) w)) \<and>
   (format options \<noteq> Xlsx \<or> xlsxDefined rt \<longrightarrow>
      fst (handleExport rt [] [] categories options w) =
        (''Export completed successfully!'', ''success''))"
proof (intro conjI impI)
  assume "filter (\<lambda>item. tenantId item = ''tenant-123'') (map snd (menuItemDB w)) = []"
  from handleExcelExport_empty [OF this, of rt categories]
  show "fst (handleExcelExport rt categories w) = (''No items to export.'', ''error'')"
    and "downloads (snd (handleExcelExport rt categories w)) = downloads w" by simp_all
next
  assume "format options = Csv"
  then show "exportData rt [] categories options w =
        (Inr (), download (exportFileName rt (now w) ''csv'') (CsvFile (join '','' csvHeaders)) w)"
    by (rule exportData_empty_csv)
next
  assume "format options = Json"
  then show "exportData rt [] categories options w =
        (Inr (),
         download (exportFileName rt (now w) ''json'')
           (JsonFile
              \<lparr>exportDate = toISOString rt (now w), version = ''1.0'',
               metadata =
                 (if includeMetadata options = Some True
                  then Some \<lparr>totalItems = 0, totalCategories = length categories,
                             exportOptions = options\<rparr>
                  else None),
               json_categories = categories, json_menuItems = []\<rparr>) w)"
    by (rule exportData_empty_json)
next
  assume "format options = Xlsx \<and> xlsxDefined rt"
  then show "exportData rt [] categories options w =
        (Inr (),
         download (exportFileName rt (now w) ''xlsx'')
           (XlsxFile [(''Categories'', categoriesSheet categories), (''Menu Items'', []),
                      (''Summary'', summarySheet rt (now w) categories [])]) w)"
    by (intro exportData_empty_xlsx) simp_all
next
  assume a: "format options \<noteq> Xlsx \<or> xlsxDefined rt"
  have "fst (exportData rt [] categories options w) = Inr ()"
  proof (cases "format options")
    case Csv
    then show ?thesis by (simp add: exportData_empty_csv)
  next
    case Json
    from exportData_empty_json [OF this, of rt categories w] show ?thesis by simp
  next
    case Xlsx
    with a have "xlsxDefined rt" by simp
    from exportData_empty_xlsx [OF Xlsx this, of categories w] show ?thesis by simp
  qed
  then show "fst (handleExport rt [] [] categories options w) =
        (''Export completed successfully!'', ''success'')"
    by (intro handleExport_toast) simp
qed

lemma example_formats:
  "format csvOptions = Csv" "format jsonOptions = Json" "format xlsxOptions = Xlsx"
  "xlsxDefined exampleRuntime"
  by (simp_all add: csvOptions_def jsonOptions_def xlsxOptions_def exampleRuntime_def)

lemma emptyPage_items:
  "filter (\<lambda>item. tenantId item = ''tenant-123'') (map snd (menuItemDB emptyPage)) = []"
  by (simp add: emptyPage_def)

theorem export_of_no_items_witness:
  "filter (\<lambda>item. tenantId item = ''tenant-123'') (map snd (menuItemDB emptyPage)) = [] \<and>
   fst (handleExcelExport exampleRuntime initialCategoriesData emptyPage) =
     (''No items to export.'', ''error'') \<and>
   downloads (snd (handleExcelExport exampleRuntime initialCategoriesData emptyPage)) =
     downloads emptyPage \<and>
   format csvOptions = Csv \<and>
   fst (exportData exampleRuntime [] initialCategoriesData csvOptions emptyPage) = Inr () \<and>
   format jsonOptions = Json \<and>
   fst (exportData exampleRuntime [] initialCategoriesData jsonOptions emptyPage) = Inr () \<and>
   format xlsxOptions = Xlsx \<and> xlsxDefined exampleRuntime \<and>
   fst (exportData exampleRuntime [] initialCategoriesData xlsxOptions emptyPage) = Inr () \<and>
   fst (handleExport exampleRuntime [] [] initialCategoriesData csvOptions emptyPage) =
     (''Export completed successfully!'', ''success'')"
proof -
  note c = export_of_no_items [of emptyPage exampleRuntime initialCategoriesData csvOptions]
  note j = export_of_no_items [of emptyPage exampleRuntime initialCategoriesData jsonOptions]
  note x = export_of_no_items [of emptyPage exampleRuntime initialCategoriesData xlsxOptions]
  note c1 = c [THEN conjunct1, THEN mp, OF emptyPage_items]
  note c2 = c [THEN conjunct2, THEN conjunct1, THEN mp, OF example_formats(1)]
  note j3 = j [THEN conjunct2, THEN conjunct2, THEN conjunct1, THEN mp, OF example_formats(2)]
  note x4 = x [THEN conjunct2, THEN conjunct2, THEN conjunct2, THEN conjunct1, THEN mp,
               OF conjI [OF example_formats(3,4)]]
  note c5 = c [THEN conjunct2, THEN conjunct2, THEN conjunct2, THEN conjunct2, THEN mp,
               OF disjI2, OF example_formats(4)]
  have "fst (exportData exampleRuntime [] initialCategoriesData csvOptions emptyPage) = Inr ()"
    unfolding c2 by simp
  moreover have "fst (exportData exampleRuntime [] initialCategoriesData jsonOptions emptyPage) = Inr ()"
    unfolding j3 by simp
  moreover have "fst (exportData exampleRuntime [] initialCategoriesData xlsxOptions emptyPage) = Inr ()"
    unfolding x4 by simp
  ultimately show ?thesis
    using c1 c5 by (simp add: example_formats emptyPage_items)
qed

lemma exportFileName_example: "exportFileName exampleRuntime 0 ''csv'' = ''menu-export-1970-01-01.csv''"
  by (simp add: exportFileName_def exampleRuntime_def toISOString_day1_def pad_def
        natToString.simps digit_char_def)

theorem empty_export_written_counterexample:
  "fst (exportData exampleRuntime [] [] csvOptions page0) = Inr () \<and>
   downloads (snd (exportData exampleRuntime [] [] csvOptions page0)) =
     [(''menu-export-1970-01-01.csv'', CsvFile (join '','' csvHeaders))] \<and>
   fst (handleExport exampleRuntime [] [] [] csvOptions page0) =
     (''Export completed successfully!'', ''success'')"
proof -
  have p: "now page0 = 0" "downloads page0 = []" by (simp_all add: page0_def initialWorld_def)
  have e: "exportData exampleRuntime [] [] csvOptions page0 =
     (Inr (), download ''menu-export-1970-01-01.csv'' (CsvFile (join '','' csvHeaders)) page0)"
    using exportData_empty_csv [OF example_formats(1), of exampleRuntime "[]" page0]
    by (simp add: p exportFileName_example)
  then have f: "fst (exportData exampleRuntime [] [] csvOptions page0) = Inr ()" by simp
  have "fst (handleExport exampleRuntime [] [] [] csvOptions page0) =
     (''Export completed successfully!'', ''success'')"
    by (rule handleExport_toast) (simp add: f)
  with e p show ?thesis by (simp add: download_simps)
qed


end
